theory Spec2Isabelle
  imports Main "HOL-Library.Word"
begin

section \<open>The public header \<^verbatim>\<open>src/lib/tng_io.h\<close>\<close>

subsection \<open>C enumerations\<close>

text \<open>
  A C \<^verbatim>\<open>enum\<close> lists its enumerators in order, each with an optional explicit
  value. An enumerator without one takes the value of its predecessor plus one; the
  first takes 0. \<open>c_enum\<close> computes the values from a declaration written as in the
  header, \<open>enum_value\<close> reads the value of an enumerator and \<open>enum_of_value\<close>
  converts an integer back (\<open>None\<close> when no enumerator has that value).
\<close>

fun c_enum :: "int \<Rightarrow> ('a \<times> int option) list \<Rightarrow> ('a \<times> int) list" where
  "c_enum n [] = []"
| "c_enum n ((e, None) # es) = (e, n) # c_enum (n + 1) es"
| "c_enum n ((e, Some v) # es) = (e, v) # c_enum (v + 1) es"

definition enum_value :: "('a \<times> int option) list \<Rightarrow> 'a \<Rightarrow> int" where
  "enum_value decl e = the (map_of (c_enum 0 decl) e)"

definition enum_of_value :: "('a \<times> int option) list \<Rightarrow> int \<Rightarrow> 'a option" where
  "enum_of_value decl v = map_of (map (\<lambda>(e, i). (i, e)) (c_enum 0 decl)) v"

subsection \<open>Constants\<close>

text \<open>\<^verbatim>\<open>#define TNG_VERSION 1\<close> and the flags, lengths and limits that follow it.\<close>

definition TNG_VERSION :: int where
  "TNG_VERSION = 1"

definition TNG_PARTICLE_DEPENDENT :: int where
  "TNG_PARTICLE_DEPENDENT = 1"

definition TNG_FRAME_DEPENDENT :: int where
  "TNG_FRAME_DEPENDENT = 2"

definition TNG_MAX_DATE_STR_LEN :: int where
  "TNG_MAX_DATE_STR_LEN = 24"

definition TNG_HASH_LEN :: nat where
  "TNG_HASH_LEN = 16"

definition TNG_MAX_STR_LEN :: int where
  "TNG_MAX_STR_LEN = 1024"

subsection \<open>Enumerated types\<close>

datatype tng_compression = TNG_UNCOMPRESSED | TNG_XTC_COMPRESSION | TNG_TNG_COMPRESSION

definition tng_compression_enum :: "(tng_compression \<times> int option) list" where
  "tng_compression_enum =
     [(TNG_UNCOMPRESSED, None), (TNG_XTC_COMPRESSION, None), (TNG_TNG_COMPRESSION, None)]"

datatype tng_block_type = TNG_NON_TRAJECTORY_BLOCK | TNG_TRAJECTORY_BLOCK

definition tng_block_type_enum :: "(tng_block_type \<times> int option) list" where
  "tng_block_type_enum = [(TNG_NON_TRAJECTORY_BLOCK, None), (TNG_TRAJECTORY_BLOCK, None)]"

datatype tng_non_trajectory_block_ids =
    TNG_ENDIANNESS_AND_STRING_LENGTH
  | TNG_GENERAL_INFO
  | TNG_MOLECULES
  | TNG_TRAJECTORY_IDS_AND_NAMES
  | TNG_TRAJECTORY_FRAME_SET
  | TNG_BLOCK_TABLE_OF_CONTENTS
  | TNG_PARTICLE_MAPPING

definition tng_non_trajectory_block_ids_enum ::
    "(tng_non_trajectory_block_ids \<times> int option) list" where
  "tng_non_trajectory_block_ids_enum =
     [(TNG_ENDIANNESS_AND_STRING_LENGTH, None),
      (TNG_GENERAL_INFO, None),
      (TNG_MOLECULES, None),
      (TNG_TRAJECTORY_IDS_AND_NAMES, None),
      (TNG_TRAJECTORY_FRAME_SET, None),
      (TNG_BLOCK_TABLE_OF_CONTENTS, None),
      (TNG_PARTICLE_MAPPING, None)]"



datatype tng_variable_n_atoms_flag = TNG_CONSTANT_N_ATOMS | TNG_VARIABLE_N_ATOMS

datatype tng_function_status = TNG_SUCCESS | TNG_FAILURE | TNG_CRITICAL

definition tng_function_status_enum :: "(tng_function_status \<times> int option) list" where
  "tng_function_status_enum = [(TNG_SUCCESS, None), (TNG_FAILURE, None), (TNG_CRITICAL, None)]"

datatype tng_hash_mode = TNG_SKIP_HASH | TNG_USE_HASH

datatype tng_data_type = TNG_CHAR_DATA | TNG_INT_DATA | TNG_FLOAT_DATA | TNG_DOUBLE_DATA

definition tng_data_type_enum :: "(tng_data_type \<times> int option) list" where
  "tng_data_type_enum =
     [(TNG_CHAR_DATA, None), (TNG_INT_DATA, None), (TNG_FLOAT_DATA, None),
      (TNG_DOUBLE_DATA, None)]"



subsection \<open>Values of data blocks\<close>

text \<open>
  \<^verbatim>\<open>union data_values { double d; float f; int i; char *c; }\<close>: a value of a data
  block is a double, a float, an int or a string. The floating-point members are kept
  as their bit patterns (64 and 32 bits), the \<^verbatim>\<open>int\<close> as a 32-bit word. A C union
  does not record which member it holds: the \<open>tng_data_type\<close> that travels with the
  values does, and \<open>tng_data_type_of\<close> is the tag under which a member is read.
\<close>

datatype data_values =
    Data_d "64 word"
  | Data_f "32 word"
  | Data_i "32 word"
  | Data_c string

fun tng_data_type_of :: "data_values \<Rightarrow> tng_data_type" where
  "tng_data_type_of (Data_d _) = TNG_DOUBLE_DATA"
| "tng_data_type_of (Data_f _) = TNG_FLOAT_DATA"
| "tng_data_type_of (Data_i _) = TNG_INT_DATA"
| "tng_data_type_of (Data_c _) = TNG_CHAR_DATA"

text \<open>
  \<^verbatim>\<open>tng_data_block_add\<close> and \<^verbatim>\<open>tng_particle_data_block_add\<close> take the datatype as
  a \<^verbatim>\<open>const char\<close>: the enumerator is converted to a single byte on the call.
\<close>

type_synonym c_char = "8 word"

definition datatype_as_char :: "tng_data_type \<Rightarrow> c_char" where
  "datatype_as_char t = word_of_int (enum_value tng_data_type_enum t)"

subsection \<open>Function declarations\<close>

text \<open>
  The types of the header's function declarations, and the declarations themselves in
  the order of the header: the name, the return type and the parameters (type, name).
\<close>

datatype c_type =
    C_void
  | C_char
  | C_int64_t
  | C_typedef string
  | C_union string
  | C_const c_type
  | C_ptr c_type

record c_function =
  c_name :: string
  c_return :: c_type
  c_params :: "(c_type \<times> string) list"

definition tng_io_h :: "c_function list" where
  "tng_io_h = [
  \<lparr>c_name = ''tng_trajectory_init'', c_return = C_typedef ''tng_function_status'',
     c_params =
      [((C_ptr (C_typedef ''tng_trajectory_t'')), ''tng_data_p'')]\<rparr>,
  \<lparr>c_name = ''tng_trajectory_destroy'', c_return = C_typedef ''tng_function_status'',
     c_params =
      [((C_ptr (C_typedef ''tng_trajectory_t'')), ''tng_data_p'')]\<rparr>,
  \<lparr>c_name = ''tng_input_file_set'', c_return = C_typedef ''tng_function_status'',
     c_params =
      [((C_typedef ''tng_trajectory_t''), ''tng_data''),
       ((C_ptr (C_const C_char)), ''file_name'')]\<rparr>,
  \<lparr>c_name = ''tng_output_file_set'', c_return = C_typedef ''tng_function_status'',
     c_params =
      [((C_typedef ''tng_trajectory_t''), ''tng_data''),
       ((C_ptr (C_const C_char)), ''file_name'')]\<rparr>,
  \<lparr>c_name = ''tng_first_program_name_set'', c_return = C_typedef ''tng_function_status'',
     c_params =
      [((C_typedef ''tng_trajectory_t''), ''tng_data''),
       ((C_ptr (C_const C_char)), ''new_name'')]\<rparr>,
  \<lparr>c_name = ''tng_last_program_name_set'', c_return = C_typedef ''tng_function_status'',
     c_params =
      [((C_typedef ''tng_trajectory_t''), ''tng_data''),
       ((C_ptr (C_const C_char)), ''new_name'')]\<rparr>,
  \<lparr>c_name = ''tng_first_user_name_set'', c_return = C_typedef ''tng_function_status'',
     c_params =
      [((C_typedef ''tng_trajectory_t''), ''tng_data''),
       ((C_ptr (C_const C_char)), ''new_name'')]\<rparr>,
  \<lparr>c_name = ''tng_last_user_name_set'', c_return = C_typedef ''tng_function_status'',
     c_params =
      [((C_typedef ''tng_trajectory_t''), ''tng_data''),
       ((C_ptr (C_const C_char)), ''new_name'')]\<rparr>,
  \<lparr>c_name = ''tng_first_computer_name_set'', c_return = C_typedef ''tng_function_status'',
     c_params =
      [((C_typedef ''tng_trajectory_t''), ''tng_data''),
       ((C_ptr (C_const C_char)), ''new_name'')]\<rparr>,
  \<lparr>c_name = ''tng_last_computer_name_set'', c_return = C_typedef ''tng_function_status'',
     c_params =
      [((C_typedef ''tng_trajectory_t''), ''tng_data''),
       ((C_ptr (C_const C_char)), ''new_name'')]\<rparr>,
  \<lparr>c_name = ''tng_first_signature_set'', c_return = C_typedef ''tng_function_status'',
     c_params =
      [((C_typedef ''tng_trajectory_t''), ''tng_data''),
       ((C_ptr (C_const C_char)), ''signature'')]\<rparr>,
  \<lparr>c_name = ''tng_last_signature_set'', c_return = C_typedef ''tng_function_status'',
     c_params =
      [((C_typedef ''tng_trajectory_t''), ''tng_data''),
       ((C_ptr (C_const C_char)), ''signature'')]\<rparr>,
  \<lparr>c_name = ''tng_forcefield_name_set'', c_return = C_typedef ''tng_function_status'',
     c_params =
      [((C_typedef ''tng_trajectory_t''), ''tng_data''),
       ((C_ptr (C_const C_char)), ''new_name'')]\<rparr>,
  \<lparr>c_name = ''tng_medium_stride_length_get'', c_return = C_typedef ''tng_function_status'',
     c_params =
      [((C_typedef ''tng_trajectory_t''), ''tng_data''),
       ((C_ptr C_int64_t), ''len'')]\<rparr>,
  \<lparr>c_name = ''tng_medium_stride_length_set'', c_return = C_typedef ''tng_function_status'',
     c_params =
      [((C_typedef ''tng_trajectory_t''), ''tng_data''),
       (C_int64_t, ''len'')]\<rparr>,
  \<lparr>c_name = ''tng_long_stride_length_get'', c_return = C_typedef ''tng_function_status'',
     c_params =
      [((C_typedef ''tng_trajectory_t''), ''tng_data''),
       ((C_ptr C_int64_t), ''len'')]\<rparr>,
  \<lparr>c_name = ''tng_long_stride_length_set'', c_return = C_typedef ''tng_function_status'',
     c_params =
      [((C_typedef ''tng_trajectory_t''), ''tng_data''),
       (C_int64_t, ''len'')]\<rparr>,
  \<lparr>c_name = ''tng_input_file_pos_get'', c_return = C_typedef ''tng_function_status'',
     c_params =
      [((C_typedef ''tng_trajectory_t''), ''tng_data''),
       ((C_ptr C_int64_t), ''pos'')]\<rparr>,
  \<lparr>c_name = ''tng_output_file_pos_get'', c_return = C_typedef ''tng_function_status'',
     c_params =
      [((C_typedef ''tng_trajectory_t''), ''tng_data''),
       ((C_ptr C_int64_t), ''pos'')]\<rparr>,
  \<lparr>c_name = ''tng_input_file_len_get'', c_return = C_typedef ''tng_function_status'',
     c_params =
      [((C_typedef ''tng_trajectory_t''), ''tng_data''),
       ((C_ptr C_int64_t), ''len'')]\<rparr>,
  \<lparr>c_name = ''tng_num_particles_get'', c_return = C_typedef ''tng_function_status'',
     c_params =
      [((C_typedef ''tng_trajectory_t''), ''tng_data''),
       ((C_ptr C_int64_t), ''n'')]\<rparr>,
  \<lparr>c_name = ''tng_num_molecules_get'', c_return = C_typedef ''tng_function_status'',
     c_params =
      [((C_typedef ''tng_trajectory_t''), ''tng_data''),
       ((C_ptr C_int64_t), ''n'')]\<rparr>,
  \<lparr>c_name = ''tng_num_frames_per_frame_set_get'', c_return = C_typedef ''tng_function_status'',
     c_params =
      [((C_typedef ''tng_trajectory_t''), ''tng_data''),
       ((C_ptr C_int64_t), ''n'')]\<rparr>,
  \<lparr>c_name = ''tng_current_frame_set_get'', c_return = C_typedef ''tng_function_status'',
     c_params =
      [((C_typedef ''tng_trajectory_t''), ''tng_data''),
       ((C_typedef ''tng_trajectory_frame_set_t''), ''frame_set'')]\<rparr>,
  \<lparr>c_name = ''tng_frame_set_next_frame_set_file_pos_get'', c_return = C_typedef ''tng_function_status'',
     c_params =
      [((C_typedef ''tng_trajectory_frame_set_t''), ''frame_set''),
       ((C_ptr C_int64_t), ''pos'')]\<rparr>,
  \<lparr>c_name = ''tng_frame_set_prev_frame_set_file_pos_get'', c_return = C_typedef ''tng_function_status'',
     c_params =
      [((C_typedef ''tng_trajectory_frame_set_t''), ''frame_set''),
       ((C_ptr C_int64_t), ''pos'')]\<rparr>,
  \<lparr>c_name = ''tng_molecule_init'', c_return = C_typedef ''tng_function_status'',
     c_params =
      [((C_typedef ''tng_molecule_t''), ''molecule'')]\<rparr>,
  \<lparr>c_name = ''tng_molecule_destroy'', c_return = C_typedef ''tng_function_status'',
     c_params =
      [((C_typedef ''tng_molecule_t''), ''molecule'')]\<rparr>,
  \<lparr>c_name = ''tng_molecule_add'', c_return = C_typedef ''tng_function_status'',
     c_params =
      [((C_typedef ''tng_trajectory_t''), ''tng_data''),
       ((C_ptr (C_const C_char)), ''name''),
       ((C_ptr (C_typedef ''tng_molecule_t'')), ''molecule'')]\<rparr>,
  \<lparr>c_name = ''tng_molecule_name_set'', c_return = C_typedef ''tng_function_status'',
     c_params =
      [((C_typedef ''tng_trajectory_t''), ''tng_data''),
       ((C_typedef ''tng_molecule_t''), ''molecule''),
       ((C_ptr (C_const C_char)), ''new_name'')]\<rparr>,
  \<lparr>c_name = ''tng_molecule_cnt_get'', c_return = C_typedef ''tng_function_status'',
     c_params =
      [((C_typedef ''tng_trajectory_t''), ''tng_data''),
       ((C_typedef ''tng_molecule_t''), ''molecule''),
       ((C_ptr C_int64_t), ''cnt'')]\<rparr>,
  \<lparr>c_name = ''tng_molecule_cnt_set'', c_return = C_typedef ''tng_function_status'',
     c_params =
      [((C_typedef ''tng_trajectory_t''), ''tng_data''),
       ((C_typedef ''tng_molecule_t''), ''molecule''),
       (C_int64_t, ''cnt'')]\<rparr>,
  \<lparr>c_name = ''tng_molecule_chain_add'', c_return = C_typedef ''tng_function_status'',
     c_params =
      [((C_typedef ''tng_trajectory_t''), ''tng_data''),
       ((C_typedef ''tng_molecule_t''), ''molecule''),
       ((C_ptr (C_const C_char)), ''name''),
       ((C_ptr (C_typedef ''tng_chain_t'')), ''chain'')]\<rparr>,
  \<lparr>c_name = ''tng_chain_name_set'', c_return = C_typedef ''tng_function_status'',
     c_params =
      [((C_typedef ''tng_trajectory_t''), ''tng_data''),
       ((C_typedef ''tng_chain_t''), ''chain''),
       ((C_ptr (C_const C_char)), ''new_name'')]\<rparr>,
  \<lparr>c_name = ''tng_chain_residue_add'', c_return = C_typedef ''tng_function_status'',
     c_params =
      [((C_typedef ''tng_trajectory_t''), ''tng_data''),
       ((C_typedef ''tng_chain_t''), ''chain''),
       ((C_ptr (C_const C_char)), ''name''),
       ((C_ptr (C_typedef ''tng_residue_t'')), ''residue'')]\<rparr>,
  \<lparr>c_name = ''tng_residue_name_set'', c_return = C_typedef ''tng_function_status'',
     c_params =
      [((C_typedef ''tng_trajectory_t''), ''tng_data''),
       ((C_typedef ''tng_residue_t''), ''residue''),
       ((C_ptr (C_const C_char)), ''new_name'')]\<rparr>,
  \<lparr>c_name = ''tng_residue_atom_add'', c_return = C_typedef ''tng_function_status'',
     c_params =
      [((C_typedef ''tng_trajectory_t''), ''tng_data''),
       ((C_typedef ''tng_residue_t''), ''residue''),
       ((C_ptr (C_const C_char)), ''atom_name''),
       ((C_ptr (C_const C_char)), ''atom_type''),
       ((C_ptr (C_typedef ''tng_atom_t'')), ''atom'')]\<rparr>,
  \<lparr>c_name = ''tng_atom_name_set'', c_return = C_typedef ''tng_function_status'',
     c_params =
      [((C_typedef ''tng_trajectory_t''), ''tng_data''),
       ((C_typedef ''tng_atom_t''), ''atom''),
       ((C_ptr (C_const C_char)), ''new_name'')]\<rparr>,
  \<lparr>c_name = ''tng_atom_type_set'', c_return = C_typedef ''tng_function_status'',
     c_params =
      [((C_typedef ''tng_trajectory_t''), ''tng_data''),
       ((C_typedef ''tng_atom_t''), ''atom''),
       ((C_ptr (C_const C_char)), ''new_type'')]\<rparr>,
  \<lparr>c_name = ''tng_particle_mapping_add'', c_return = C_typedef ''tng_function_status'',
     c_params =
      [((C_typedef ''tng_trajectory_t''), ''tng_data''),
       ((C_const C_int64_t), ''first_particle_number''),
       ((C_const C_int64_t), ''n_particles''),
       ((C_ptr (C_const C_int64_t)), ''mapping_table'')]\<rparr>,
  \<lparr>c_name = ''tng_file_headers_read'', c_return = C_typedef ''tng_function_status'',
     c_params =
      [((C_typedef ''tng_trajectory_t''), ''tng_data''),
       ((C_const (C_typedef ''tng_hash_mode'')), ''hash_mode'')]\<rparr>,
  \<lparr>c_name = ''tng_file_headers_write'', c_return = C_typedef ''tng_function_status'',
     c_params =
      [((C_typedef ''tng_trajectory_t''), ''tng_data''),
       ((C_const (C_typedef ''tng_hash_mode'')), ''hash_mode'')]\<rparr>,
  \<lparr>c_name = ''tng_block_read_next'', c_return = C_typedef ''tng_function_status'',
     c_params =
      [((C_typedef ''tng_trajectory_t''), ''tng_data''),
       ((C_typedef ''tng_gen_block_t''), ''block_data''),
       ((C_const (C_typedef ''tng_hash_mode'')), ''hash_mode'')]\<rparr>,
  \<lparr>c_name = ''tng_frame_set_read_next'', c_return = C_typedef ''tng_function_status'',
     c_params =
      [((C_typedef ''tng_trajectory_t''), ''tng_data''),
       ((C_const (C_typedef ''tng_hash_mode'')), ''hash_mode'')]\<rparr>,
  \<lparr>c_name = ''tng_frame_set_write'', c_return = C_typedef ''tng_function_status'',
     c_params =
      [((C_typedef ''tng_trajectory_t''), ''tng_data''),
       ((C_const (C_typedef ''tng_hash_mode'')), ''hash_mode'')]\<rparr>,
  \<lparr>c_name = ''tng_frame_set_new'', c_return = C_typedef ''tng_function_status'',
     c_params =
      [((C_typedef ''tng_trajectory_t''), ''tng_data''),
       ((C_const C_int64_t), ''first_frame''),
       ((C_const C_int64_t), ''n_frames'')]\<rparr>,
  \<lparr>c_name = ''tng_data_block_add'', c_return = C_typedef ''tng_function_status'',
     c_params =
      [((C_typedef ''tng_trajectory_t''), ''tng_data''),
       ((C_const C_int64_t), ''id''),
       ((C_ptr (C_const C_char)), ''block_name''),
       ((C_const C_char), ''datatype''),
       ((C_const (C_typedef ''tng_block_type'')), ''block_type_flag''),
       (C_int64_t, ''n_frames''),
       ((C_const C_int64_t), ''n_values_per_frame''),
       ((C_const C_int64_t), ''stride_length''),
       (C_int64_t, ''codec_id''),
       ((C_ptr C_void), ''new_data'')]\<rparr>,
  \<lparr>c_name = ''tng_particle_data_block_add'', c_return = C_typedef ''tng_function_status'',
     c_params =
      [((C_typedef ''tng_trajectory_t''), ''tng_data''),
       ((C_const C_int64_t), ''id''),
       ((C_ptr (C_const C_char)), ''block_name''),
       ((C_const C_char), ''datatype''),
       ((C_const (C_typedef ''tng_block_type'')), ''block_type_flag''),
       (C_int64_t, ''n_frames''),
       ((C_const C_int64_t), ''n_values_per_frame''),
       ((C_const C_int64_t), ''stride_length''),
       ((C_const C_int64_t), ''first_particle_number''),
       ((C_const C_int64_t), ''n_particles''),
       (C_int64_t, ''codec_id''),
       ((C_ptr C_void), ''new_data'')]\<rparr>,
  \<lparr>c_name = ''tng_frame_read_interval'', c_return = C_typedef ''tng_function_status'',
     c_params =
      [((C_typedef ''tng_trajectory_t''), ''tng_data''),
       (C_int64_t, ''start_frame_nr''),
       (C_int64_t, ''end_frame_nr''),
       ((C_const (C_typedef ''tng_hash_mode'')), ''hash_mode'')]\<rparr>,
  \<lparr>c_name = ''tng_frame_write_interval'', c_return = C_typedef ''tng_function_status'',
     c_params =
      [((C_typedef ''tng_trajectory_t''), ''tng_data''),
       (C_int64_t, ''start_frame_nr''),
       (C_int64_t, ''end_frame_nr''),
       ((C_const (C_typedef ''tng_hash_mode'')), ''hash_mode'')]\<rparr>,
  \<lparr>c_name = ''tng_data_values_free'', c_return = C_typedef ''tng_function_status'',
     c_params =
      [((C_ptr (C_ptr (C_union ''data_values''))), ''values''),
       (C_int64_t, ''n_frames''),
       (C_int64_t, ''n_values_per_frame''),
       ((C_typedef ''tng_data_type''), ''type'')]\<rparr>,
  \<lparr>c_name = ''tng_particle_data_values_free'', c_return = C_typedef ''tng_function_status'',
     c_params =
      [((C_ptr (C_ptr (C_ptr (C_union ''data_values'')))), ''values''),
       (C_int64_t, ''n_frames''),
       (C_int64_t, ''n_particles''),
       (C_int64_t, ''n_values_per_frame''),
       ((C_typedef ''tng_data_type''), ''type'')]\<rparr>,
  \<lparr>c_name = ''tng_data_get'', c_return = C_typedef ''tng_function_status'',
     c_params =
      [((C_typedef ''tng_trajectory_t''), ''tng_data''),
       (C_int64_t, ''block_id''),
       ((C_ptr (C_ptr (C_ptr (C_union ''data_values'')))), ''values''),
       ((C_ptr C_int64_t), ''n_frames''),
       ((C_ptr C_int64_t), ''n_values_per_frame''),
       ((C_ptr (C_typedef ''tng_data_type'')), ''type'')]\<rparr>,
  \<lparr>c_name = ''tng_data_interval_get'', c_return = C_typedef ''tng_function_status'',
     c_params =
      [((C_typedef ''tng_trajectory_t''), ''tng_data''),
       (C_int64_t, ''block_id''),
       (C_int64_t, ''start_frame_nr''),
       (C_int64_t, ''end_frame_nr''),
       ((C_ptr (C_ptr (C_ptr (C_union ''data_values'')))), ''values''),
       ((C_ptr C_int64_t), ''n_values_per_frame''),
       ((C_ptr (C_typedef ''tng_data_type'')), ''type'')]\<rparr>,
  \<lparr>c_name = ''tng_particle_data_get'', c_return = C_typedef ''tng_function_status'',
     c_params =
      [((C_typedef ''tng_trajectory_t''), ''tng_data''),
       (C_int64_t, ''block_id''),
       ((C_ptr (C_ptr (C_ptr (C_ptr (C_union ''data_values''))))), ''values''),
       ((C_ptr C_int64_t), ''n_frames''),
       ((C_ptr C_int64_t), ''n_particles''),
       ((C_ptr C_int64_t), ''n_values_per_frame''),
       ((C_ptr (C_typedef ''tng_data_type'')), ''type'')]\<rparr>,
  \<lparr>c_name = ''tng_particle_data_interval_get'', c_return = C_typedef ''tng_function_status'',
     c_params =
      [((C_typedef ''tng_trajectory_t''), ''tng_data''),
       (C_int64_t, ''block_id''),
       (C_int64_t, ''start_frame_nr''),
       (C_int64_t, ''end_frame_nr''),
       (C_int64_t, ''first_particle_number''),
       (C_int64_t, ''last_particle_number''),
       ((C_ptr (C_ptr (C_ptr (C_ptr (C_union ''data_values''))))), ''values''),
       ((C_ptr C_int64_t), ''n_values_per_frame''),
       ((C_ptr (C_typedef ''tng_data_type'')), ''type'')]\<rparr>,
  \<lparr>c_name = ''tng_time_get_str'', c_return = C_typedef ''tng_function_status'',
     c_params =
      [((C_typedef ''tng_trajectory_t''), ''tng_data''),
       ((C_ptr C_char), ''time'')]\<rparr>]"

definition c_function_of :: "string \<Rightarrow> c_function option" where
  "c_function_of f = find (\<lambda>d. c_name d = f) tng_io_h"

definition c_param_type :: "string \<Rightarrow> string \<Rightarrow> c_type option" where
  "c_param_type f p =
     (case c_function_of f of
        None \<Rightarrow> None
      | Some d \<Rightarrow> map_of (map (\<lambda>(t, n). (n, t)) (c_params d)) p)"

section \<open>The engine behind the header\<close>

text \<open>
  The header declares the operations; their bodies (\<^verbatim>\<open>tng_io.c\<close>) are not among the
  sources. The operations below are modelled from the specification and from the
  header's documentation of each function, and every one of them says so.
\<close>

subsection \<open>The topology and the particle count\<close>

text \<open>
  Modelled from the spec: the structs behind \<^verbatim>\<open>tng_atom_t\<close>, \<^verbatim>\<open>tng_residue_t\<close>,
  \<^verbatim>\<open>tng_chain_t\<close> and \<^verbatim>\<open>tng_molecule_t\<close> are only declared in the header. The
  spec (Data model): a chain owns an ordered sequence of residues, a residue an ordered
  sequence of atoms, an atom has a name and an atom-type string; a molecule template has
  a name, an instance count, an ordered list of chains and a direct atom list (atoms may
  live outside chains). Counts are \<^verbatim>\<open>int64_t\<close> in the header and mathematical
  integers here.
\<close>

record tng_atom =
  atom_name :: string
  atom_type :: string

record tng_residue =
  residue_name :: string
  residue_atoms :: "tng_atom list"

record tng_chain =
  chain_name :: string
  chain_residues :: "tng_residue list"

record tng_molecule =
  molecule_name :: string
  molecule_cnt :: int
  molecule_chains :: "tng_chain list"
  molecule_atoms :: "tng_atom list"

text \<open>
  Modelled from the spec: the atoms of one instance of a molecule are the atoms of the
  residues of its chains and the atoms of its direct atom list.
\<close>

definition chain_n_atoms :: "tng_chain \<Rightarrow> int" where
  "chain_n_atoms c = (\<Sum>r \<leftarrow> chain_residues c. int (length (residue_atoms r)))"

definition molecule_n_atoms :: "tng_molecule \<Rightarrow> int" where
  "molecule_n_atoms m =
     (\<Sum>c \<leftarrow> molecule_chains m. chain_n_atoms c) + int (length (molecule_atoms m))"

text \<open>
  Modelled from the spec: what the session holds for the particle count. The spec
  (Data model, Design notes): the session has the topology root (the molecule
  templates) and the current frame set; per-frame-set particle counts are legal. The
  flag is the header's \<open>tng_variable_n_atoms_flag\<close>.
\<close>

record tng_trajectory_frame_set_counts =
  frame_set_n_particles :: int

record tng_trajectory =
  var_num_atoms_flag :: tng_variable_n_atoms_flag
  molecules :: "tng_molecule list"
  current_trajectory_frame_set :: tng_trajectory_frame_set_counts

text \<open>
  Modelled from the spec: the global atom count of the system is the sum over the
  molecule templates of instances times atoms per molecule.
\<close>

definition topology_n_particles :: "tng_trajectory \<Rightarrow> int" where
  "topology_n_particles tng_data =
     (\<Sum>m \<leftarrow> molecules tng_data. molecule_cnt m * molecule_n_atoms m)"

text \<open>
  Modelled from the spec: the body of \<^verbatim>\<open>tng_num_particles_get\<close> is not among the
  sources. Its documentation in the header: get the current number of particles; if
  variable number of particles are used this function will return the number of
  particles in the current frame set. The spec: the session exposes the current count,
  which may differ from the topological total. The result is the status and the value
  stored through \<^verbatim>\<open>int64_t *n\<close>.
\<close>

definition tng_num_particles_get :: "tng_trajectory \<Rightarrow> tng_function_status \<times> int" where
  "tng_num_particles_get tng_data =
     (if var_num_atoms_flag tng_data = TNG_CONSTANT_N_ATOMS
      then (TNG_SUCCESS, topology_n_particles tng_data)
      else (TNG_SUCCESS, frame_set_n_particles (current_trajectory_frame_set tng_data)))"

subsection \<open>Reading bytes and strings\<close>

text \<open>
  Modelled from the spec: the byte layer is not among the sources. The spec (Byte I/O):
  the layer reads primitive values of known width in the file's declared byte order;
  strings are length-prefixed with a 64-bit length and stored as raw bytes (no terminator
  on disk); a maximum accepted length is 1024 and over-length strings on read are
  reported as a minor failure. A truncated read is a critical failure (spec, Error
  handling).

  The input file is its bytes and the cursor an index into them. A read returns the
  status, the value when there is one, and the cursor where the reading stopped. The
  decoding of the eight bytes of a 64-bit field in the declared byte order is a
  parameter, \<open>dec\<close>.
\<close>

type_synonym byte = "8 word"

type_synonym 'a reading = "tng_function_status \<times> 'a option \<times> nat"

definition read_bytes :: "byte list \<Rightarrow> nat \<Rightarrow> nat \<Rightarrow> byte list reading" where
  "read_bytes file pos n =
     (if pos + n \<le> length file
      then (TNG_SUCCESS, Some (take n (drop pos file)), pos + n)
      else (TNG_CRITICAL, None, pos))"

definition read_u64 :: "(byte list \<Rightarrow> 64 word) \<Rightarrow> byte list \<Rightarrow> nat \<Rightarrow> (64 word) reading" where
  "read_u64 dec file pos =
     (case read_bytes file pos 8 of
        (TNG_SUCCESS, Some bs, pos') \<Rightarrow> (TNG_SUCCESS, Some (dec bs), pos')
      | (st, _, pos') \<Rightarrow> (st, None, pos'))"

definition read_str :: "(byte list \<Rightarrow> 64 word) \<Rightarrow> byte list \<Rightarrow> nat \<Rightarrow> (byte list) reading" where
  "read_str dec file pos =
     (case read_u64 dec file pos of
        (TNG_SUCCESS, Some len, pos') \<Rightarrow>
          (if uint len > TNG_MAX_STR_LEN then (TNG_FAILURE, None, pos')
           else read_bytes file pos' (unat len))
      | (st, _, pos') \<Rightarrow> (st, None, pos'))"

definition read_u8 :: "byte list \<Rightarrow> nat \<Rightarrow> byte reading" where
  "read_u8 file pos =
     (if pos < length file then (TNG_SUCCESS, Some (file ! pos), pos + 1)
      else (TNG_CRITICAL, None, pos))"

text \<open>The big-endian reading of a 64-bit field, one of the declared byte orders.\<close>

definition big_endian_64 :: "byte list \<Rightarrow> 64 word" where
  "big_endian_64 bs = foldl (\<lambda>acc b. acc * 256 + ucast b) 0 bs"

subsection \<open>Reading a block\<close>

text \<open>
  Modelled from the spec: \<^verbatim>\<open>struct tng_gen_block\<close> is only declared in the header.
  The spec (Block framing): a block is its total length (header and content), its id,
  its length-prefixed name, its version, its 8-bit block-type flag, its 16-byte content
  digest (all-zero if not computed) and its content bytes.
\<close>

record tng_gen_block =
  block_total_length :: "64 word"
  block_id :: "64 word"
  block_name :: "byte list"
  block_version :: "64 word"
  block_type_flag :: byte
  block_hash :: "byte list"
  block_contents :: "byte list"

text \<open>
  Modelled from the spec: the sequencing of the reads of one block, which the byte layer
  and the block reader share. The spec (Error handling): each component returns one of
  the three kinds. The next field is read only after a successful read, from where that
  one stopped; any other outcome ends the reading with its status.
\<close>

definition then_read :: "'a reading \<Rightarrow> ('a \<Rightarrow> nat \<Rightarrow> 'b reading) \<Rightarrow> 'b reading" where
  "then_read r f =
     (case r of
        (TNG_SUCCESS, Some v, pos) \<Rightarrow> f v pos
      | (TNG_SUCCESS, None, pos) \<Rightarrow> (TNG_CRITICAL, None, pos)
      | (st, _, pos) \<Rightarrow> (st, None, pos))"

text \<open>
  Modelled from the spec: the body of \<^verbatim>\<open>tng_block_read_next\<close> is not among the
  sources. The spec (Block framing, read protocol): read length, id, name, version,
  type, digest; read content of (length - header-size) bytes; if digest mode is active
  and the stored digest is non-zero, recompute over content bytes and fail with a digest
  mismatch if they differ. The spec (Integrity digest): verification failure is always a
  non-fatal minor failure: the data is still returned, but the caller is informed. The
  digest algorithm \<open>H\<close> is a parameter (any fixed 128-bit content hash, says the spec).
  A total length shorter than the header is malformed framing, a critical failure.
\<close>

definition read_block_header ::
    "(byte list \<Rightarrow> 64 word) \<Rightarrow> byte list \<Rightarrow> nat \<Rightarrow> tng_gen_block reading" where
  "read_block_header dec file pos =
     then_read (read_u64 dec file pos) (\<lambda>len p1.
     then_read (read_u64 dec file p1) (\<lambda>ident p2.
     then_read (read_str dec file p2) (\<lambda>name p3.
     then_read (read_u64 dec file p3) (\<lambda>version p4.
     then_read (read_u8 file p4) (\<lambda>flag p5.
     then_read (read_bytes file p5 TNG_HASH_LEN) (\<lambda>digest p6.
       (TNG_SUCCESS,
        Some \<lparr>block_total_length = len, block_id = ident, block_name = name,
              block_version = version, block_type_flag = flag, block_hash = digest,
              block_contents = []\<rparr>,
        p6)))))))"

definition hash_match_verify :: "(byte list \<Rightarrow> byte list) \<Rightarrow> tng_gen_block \<Rightarrow> bool" where
  "hash_match_verify H block =
     (block_hash block = replicate TNG_HASH_LEN 0
      \<or> H (block_contents block) = block_hash block)"

definition tng_block_read_next ::
    "(byte list \<Rightarrow> byte list) \<Rightarrow> (byte list \<Rightarrow> 64 word) \<Rightarrow> byte list \<Rightarrow> nat
      \<Rightarrow> tng_hash_mode \<Rightarrow> tng_gen_block reading" where
  "tng_block_read_next H dec file pos hash_mode =
     then_read (read_block_header dec file pos) (\<lambda>header p.
       if unat (block_total_length header) < p - pos then (TNG_CRITICAL, None, p)
       else
         then_read (read_bytes file p (unat (block_total_length header) - (p - pos)))
           (\<lambda>contents p'.
              let block = header\<lparr>block_contents := contents\<rparr> in
              if hash_mode = TNG_USE_HASH \<and> \<not> hash_match_verify H block
              then (TNG_FAILURE, Some block, p')
              else (TNG_SUCCESS, Some block, p')))"

subsection \<open>Reading a frame set\<close>

text \<open>
  Modelled from the spec: the propagation of outcomes. The spec (Error handling): each
  component returns one of the three kinds; the session propagates the most severe kind
  encountered.
\<close>

fun most_severe :: "tng_function_status \<Rightarrow> tng_function_status \<Rightarrow> tng_function_status" where
  "most_severe TNG_CRITICAL _ = TNG_CRITICAL"
| "most_severe _ TNG_CRITICAL = TNG_CRITICAL"
| "most_severe TNG_FAILURE _ = TNG_FAILURE"
| "most_severe _ TNG_FAILURE = TNG_FAILURE"
| "most_severe TNG_SUCCESS TNG_SUCCESS = TNG_SUCCESS"

definition is_frame_set_block :: "tng_gen_block \<Rightarrow> bool" where
  "is_frame_set_block block =
     (uint (block_id block) = enum_value tng_non_trajectory_block_ids_enum TNG_TRAJECTORY_FRAME_SET)"

text \<open>
  Modelled from the spec: the body of \<^verbatim>\<open>tng_frame_set_read_next\<close> is not among the
  sources. Its documentation in the header: read one (the next) frame set, including
  toc, mapping and related data blocks. The spec (Failure semantics): critical on
  truncated frame set; minor on digest mismatch of an internal block. A frame set is its
  frame set block and the blocks after it, up to the next frame set block or the end of
  the file; the next frame set block is left unread (the header of a block tells its id).
  The blocks read are returned with the most severe status met, and the reading stops at
  a block that cannot be read. A block read that leaves the cursor in place cannot occur
  (the header alone is 49 bytes or more); the loop would not end on it and answers with a
  critical failure.
\<close>

function read_frame_set_blocks ::
    "(byte list \<Rightarrow> byte list) \<Rightarrow> (byte list \<Rightarrow> 64 word) \<Rightarrow> byte list \<Rightarrow> nat
      \<Rightarrow> tng_hash_mode \<Rightarrow> tng_function_status \<times> tng_gen_block list \<times> nat" where
  "read_frame_set_blocks H dec file pos hash_mode =
     (if length file \<le> pos then (TNG_SUCCESS, [], pos)
      else
        (case read_block_header dec file pos of
           (TNG_SUCCESS, Some header, _) \<Rightarrow>
             if is_frame_set_block header then (TNG_SUCCESS, [], pos)
             else
               (case tng_block_read_next H dec file pos hash_mode of
                  (st, Some block, p) \<Rightarrow>
                    if pos < p then
                      (case read_frame_set_blocks H dec file p hash_mode of
                         (st', blocks, p') \<Rightarrow> (most_severe st st', block # blocks, p'))
                    else (TNG_CRITICAL, [block], p)
                | (st, None, p) \<Rightarrow> (st, [], p))
         | (st, _, p) \<Rightarrow> (st, [], p)))"
  by pat_completeness auto
termination
  by (relation "measure (\<lambda>(H, dec, file, pos, hash_mode). length file - pos)") auto

declare read_frame_set_blocks.simps [simp del]

definition tng_frame_set_read_next ::
    "(byte list \<Rightarrow> byte list) \<Rightarrow> (byte list \<Rightarrow> 64 word) \<Rightarrow> byte list \<Rightarrow> nat
      \<Rightarrow> tng_hash_mode
      \<Rightarrow> tng_function_status \<times> (tng_gen_block \<times> tng_gen_block list) option \<times> nat" where
  "tng_frame_set_read_next H dec file pos hash_mode =
     (case tng_block_read_next H dec file pos hash_mode of
        (st, Some frame_set_block, p) \<Rightarrow>
          if is_frame_set_block frame_set_block then
            (case read_frame_set_blocks H dec file p hash_mode of
               (st', blocks, p') \<Rightarrow> (most_severe st st', Some (frame_set_block, blocks), p'))
          else (TNG_CRITICAL, None, p)
      | (st, None, p) \<Rightarrow> (st, None, p))"

subsection \<open>Particle mappings and particle data\<close>

text \<open>
  Modelled from the spec: \<^verbatim>\<open>struct tng_particle_mapping\<close> and
  \<^verbatim>\<open>struct tng_particle_data\<close> are only declared in the header. The spec (Data
  model): a particle mapping block has a first particle number, a particle count and a
  dense table mapping local index to global particle number (in the header's
  \<^verbatim>\<open>tng_particle_mapping_add\<close>: \<^verbatim>\<open>first_particle_number\<close>, \<^verbatim>\<open>n_particles\<close> and
  \<^verbatim>\<open>mapping_table\<close>, the list of the real particle numbers). A particle data block
  has an id, a name, a datatype, a frame count, values per frame, a stride length, a
  codec id, a first particle number, a particle count and its payload, laid out
  frame-major, then particle-major, then value-major. The payload is kept decoded:
  \<open>block_values d ! f ! i ! v\<close> is value \<open>v\<close> of the particle at local index \<open>i\<close> in
  stored frame \<open>f\<close>.
\<close>

record tng_particle_mapping =
  num_first_particle :: int
  mapping_n_particles :: int
  real_particle_numbers :: "int list"

record tng_particle_data =
  data_block_id :: int
  data_block_name :: string
  block_datatype :: tng_data_type
  n_frames :: int
  n_values_per_frame :: int
  stride_length :: int
  codec_id :: int
  data_first_particle_number :: int
  data_n_particles :: int
  block_values :: "data_values list list list"

text \<open>
  Modelled from the spec: the blocks of a frame set, in their order in the file. The
  spec (Frame-set container): a TOC block, zero or more groups of a mapping block and
  its particle data blocks, then the blocks that do not depend on particles (kept here
  by their id only).
\<close>

datatype frame_set_block =
    Particle_mapping_block tng_particle_mapping
  | Particle_data_block tng_particle_data
  | Other_block int

text \<open>
  Modelled from the spec (Ordering): each particle data block belongs to the nearest
  preceding mapping block. \<open>mapped_particle_data\<close> walks the blocks of the frame set
  with the mapping block last seen and collects the data blocks of the wanted id, each
  with its mapping.
\<close>

fun mapped_particle_data ::
    "int \<Rightarrow> tng_particle_mapping option \<Rightarrow> frame_set_block list
      \<Rightarrow> (tng_particle_mapping option \<times> tng_particle_data) list" where
  "mapped_particle_data ident current [] = []"
| "mapped_particle_data ident current (Particle_mapping_block m # blocks) =
     mapped_particle_data ident (Some m) blocks"
| "mapped_particle_data ident current (Particle_data_block d # blocks) =
     (if data_block_id d = ident
      then (current, d) # mapped_particle_data ident current blocks
      else mapped_particle_data ident current blocks)"
| "mapped_particle_data ident current (Other_block _ # blocks) =
     mapped_particle_data ident current blocks"

text \<open>
  Modelled from the spec: the invariants of a particle data block and of its pairing
  with a mapping block (Data model): stride at least 1; the payload holds
  \<open>\<lceil>frames / stride\<rceil>\<close> frames of \<open>particles\<close> rows of \<open>values_per_frame\<close> values of
  the declared datatype; the table of the mapping is as long as its particle count, and
  the rows of the data block are the local indices of the mapping.
\<close>

definition stored_frames :: "tng_particle_data \<Rightarrow> int" where
  "stored_frames d = (n_frames d + stride_length d - 1) div stride_length d"

definition particle_data_ok :: "tng_particle_mapping option \<times> tng_particle_data \<Rightarrow> bool" where
  "particle_data_ok md =
     (case md of
        (None, d) \<Rightarrow> False
      | (Some m, d) \<Rightarrow>
          1 \<le> stride_length d \<and> 0 \<le> n_frames d
          \<and> int (length (real_particle_numbers m)) = mapping_n_particles m
          \<and> data_n_particles d = mapping_n_particles m
          \<and> int (length (block_values d)) = stored_frames d
          \<and> list_all (\<lambda>frame.
                int (length frame) = data_n_particles d
                \<and> list_all (\<lambda>row.
                      int (length row) = n_values_per_frame d
                      \<and> list_all (\<lambda>v. tng_data_type_of v = block_datatype d) row) frame)
              (block_values d))"

definition same_shape :: "tng_particle_data \<Rightarrow> tng_particle_data \<Rightarrow> bool" where
  "same_shape d0 d =
     (length (block_values d) = length (block_values d0) \<and> n_values_per_frame d = n_values_per_frame d0)"

text \<open>
  Modelled from the spec: the translation to real particle numbers (Particle-range
  semantics): payload rows correspond to local indices; the mapping translates to
  global particle numbers. The particle axis of the returned array is a partial array
  from global particle numbers to rows of values; \<open>place_particles\<close> stores the row at
  local index \<open>i\<close> under the global number \<open>real_particle_numbers m ! i\<close>.
\<close>

type_synonym particle_array = "int \<rightharpoonup> data_values list"

definition place_particles ::
    "tng_particle_mapping \<Rightarrow> data_values list list \<Rightarrow> particle_array \<Rightarrow> particle_array" where
  "place_particles m rows array =
     fold (\<lambda>(global, row) a. a(global \<mapsto> row)) (zip (real_particle_numbers m) rows) array"

definition frame_particles ::
    "(tng_particle_mapping option \<times> tng_particle_data) list \<Rightarrow> nat \<Rightarrow> particle_array" where
  "frame_particles pairs f =
     fold (\<lambda>(mo, d) a.
             case mo of None \<Rightarrow> a | Some m \<Rightarrow> place_particles m (block_values d ! f) a)
       pairs Map.empty"

record particle_data_values =
  got_values :: "particle_array list"
  got_n_frames :: int
  got_n_particles :: int
  got_n_values_per_frame :: int
  got_type :: tng_data_type

text \<open>
  Modelled from the spec: the body of \<^verbatim>\<open>tng_particle_data_get\<close> is not among the
  sources. Its documentation in the header: retrieve particle data from the last read
  frame set; the particle dimension of the returned values array is translated to real
  particle numbering; the array is sized n_frames * n_particles * n_values_per_frame,
  and n_frames, n_particles, n_values_per_frame and type are set for the returned data.
  The spec: getters assemble the full system-wide array by concatenating mapping blocks;
  data getters are critical on a missing block id and minor on a type mismatch (Failure
  semantics; the list of minor failures under Error handling also names data that is not
  present in the last-read frame set, and the getters' own rule is the one taken here).
  A data block with no mapping block before it, or one that breaks the invariants above,
  is a malformed frame set, a critical failure.
\<close>

definition tng_particle_data_get ::
    "frame_set_block list \<Rightarrow> int \<Rightarrow> tng_function_status \<times> particle_data_values option" where
  "tng_particle_data_get frame_set ident =
     (case mapped_particle_data ident None frame_set of
        [] \<Rightarrow> (TNG_CRITICAL, None)
      | (m0, d0) # rest \<Rightarrow>
          let pairs = (m0, d0) # rest in
          if \<not> list_all particle_data_ok pairs
             \<or> \<not> list_all (\<lambda>(m, d). same_shape d0 d) pairs
          then (TNG_CRITICAL, None)
          else if \<not> list_all (\<lambda>(m, d). block_datatype d = block_datatype d0) pairs
          then (TNG_FAILURE, None)
          else
            (TNG_SUCCESS,
             Some \<lparr>got_values = map (frame_particles pairs) [0 ..< length (block_values d0)],
                   got_n_frames = int (length (block_values d0)),
                   got_n_particles = (\<Sum>(m, d) \<leftarrow> pairs. data_n_particles d),
                   got_n_values_per_frame = n_values_per_frame d0,
                   got_type = block_datatype d0\<rparr>))"

text \<open>
  The mapping block that is nearest before position \<open>k\<close> of a frame set: the last
  mapping block among the first \<open>k\<close> blocks.
\<close>

definition nearest_mapping :: "frame_set_block list \<Rightarrow> nat \<Rightarrow> tng_particle_mapping option" where
  "nearest_mapping frame_set k =
     fold (\<lambda>b current. case b of Particle_mapping_block m \<Rightarrow> Some m | _ \<Rightarrow> current)
       (take k frame_set) None"

text \<open>
  The global particle numbers that the data blocks of an id cover in a frame set: the
  tables of the mapping blocks those data blocks are paired with, one after the other.
  \<open>placed_rows\<close> lists what the getter stores for a frame, the global number with
  the row.
\<close>

definition particle_numbers_covered :: "frame_set_block list \<Rightarrow> int \<Rightarrow> int list" where
  "particle_numbers_covered frame_set ident =
     concat (map (\<lambda>(mo, d). case mo of None \<Rightarrow> [] | Some m \<Rightarrow> real_particle_numbers m)
       (mapped_particle_data ident None frame_set))"

definition placed_rows ::
    "(tng_particle_mapping option \<times> tng_particle_data) list \<Rightarrow> nat
      \<Rightarrow> (int \<times> data_values list) list" where
  "placed_rows pairs f =
     concat (map (\<lambda>(mo, d).
        case mo of None \<Rightarrow> []
        | Some m \<Rightarrow> zip (real_particle_numbers m) (block_values d ! f)) pairs)"

text \<open>
  The data blocks of an id are in order in a frame set when there is one, each is paired
  with a mapping block and keeps the invariants, and all agree in shape and datatype:
  the conditions under which the getter succeeds.
\<close>

definition particle_blocks_ok :: "frame_set_block list \<Rightarrow> int \<Rightarrow> bool" where
  "particle_blocks_ok frame_set ident =
     (case mapped_particle_data ident None frame_set of
        [] \<Rightarrow> False
      | (m0, d0) # rest \<Rightarrow>
          list_all particle_data_ok ((m0, d0) # rest)
          \<and> list_all (\<lambda>(m, d). same_shape d0 d) ((m0, d0) # rest)
          \<and> list_all (\<lambda>(m, d). block_datatype d = block_datatype d0) ((m0, d0) # rest))"

text \<open>
  The outcome of verifying the digests of a list of blocks that were read: success when
  every block passes, a minor failure otherwise.
\<close>

definition verified :: "(byte list \<Rightarrow> byte list) \<Rightarrow> tng_gen_block list \<Rightarrow> tng_function_status" where
  "verified H bs = (if list_all (hash_match_verify H) bs then TNG_SUCCESS else TNG_FAILURE)"

subsection \<open>Examples\<close>

text \<open>
  A water molecule (one chain, one residue, three atoms) in 1000 instances, and a session
  whose current frame set holds 2997 particles.
\<close>

definition water :: tng_molecule where
  "water =
     \<lparr>molecule_name = ''water'', molecule_cnt = 1000,
      molecule_chains =
        [\<lparr>chain_name = ''W'',
          chain_residues =
            [\<lparr>residue_name = ''HOH'',
              residue_atoms =
                [\<lparr>atom_name = ''O'', atom_type = ''O''\<rparr>,
                 \<lparr>atom_name = ''H1'', atom_type = ''H''\<rparr>,
                 \<lparr>atom_name = ''H2'', atom_type = ''H''\<rparr>]\<rparr>]\<rparr>],
      molecule_atoms = []\<rparr>"

definition water_box :: "tng_variable_n_atoms_flag \<Rightarrow> tng_trajectory" where
  "water_box flag =
     \<lparr>var_num_atoms_flag = flag, molecules = [water],
      current_trajectory_frame_set = \<lparr>frame_set_n_particles = 2997\<rparr>\<rparr>"

text \<open>
  A 16-byte digest for the examples (the sum of the bytes, their number, and padding),
  and a block of 56 bytes with the name POS, version 1, four content bytes and a given id
  field and digest field. The example file is a frame set block (id 4), a positions block
  (id 10001) whose digest is that of other content, and a mapping block (id 6) with no
  digest.
\<close>

definition example_digest :: "byte list \<Rightarrow> byte list" where
  "example_digest bs = sum_list bs # of_nat (length bs) # replicate 14 7"

definition example_block :: "byte list \<Rightarrow> byte list \<Rightarrow> byte list" where
  "example_block ident digest =
     [0, 0, 0, 0, 0, 0, 0, 56] @ ident @ [0, 0, 0, 0, 0, 0, 0, 3, 80, 79, 83]
     @ [0, 0, 0, 0, 0, 0, 0, 1] @ [1] @ digest @ [1, 2, 3, 4]"

definition example_file :: "byte list" where
  "example_file =
     example_block [0, 0, 0, 0, 0, 0, 0, 4] (example_digest [1, 2, 3, 4])
     @ example_block [0, 0, 0, 0, 0, 0, 39, 17] (example_digest [1, 2, 3, 5])
     @ example_block [0, 0, 0, 0, 0, 0, 0, 6] (replicate 16 0)"

definition example_read_block :: "64 word \<Rightarrow> byte list \<Rightarrow> tng_gen_block" where
  "example_read_block ident digest =
     \<lparr>block_total_length = 56, block_id = ident, block_name = [80, 79, 83],
      block_version = 1, block_type_flag = 1, block_hash = digest,
      block_contents = [1, 2, 3, 4]\<rparr>"

text \<open>
  A frame set of two partitions: a mapping block and its positions block for the global
  particles 1 and 0, and another pair for the global particles 3 and 2, two frames each.
\<close>

definition positions :: "int \<Rightarrow> data_values list list list \<Rightarrow> tng_particle_data" where
  "positions first vals =
     \<lparr>data_block_id = 10001, data_block_name = ''POSITIONS'', block_datatype = TNG_INT_DATA,
      n_frames = 2, n_values_per_frame = 1, stride_length = 1, codec_id = 0,
      data_first_particle_number = first, data_n_particles = 2, block_values = vals\<rparr>"

definition two_partitions :: "frame_set_block list" where
  "two_partitions =
     [Other_block 5,
      Particle_mapping_block
        \<lparr>num_first_particle = 0, mapping_n_particles = 2, real_particle_numbers = [1, 0]\<rparr>,
      Particle_data_block (positions 0 [[[Data_i 10], [Data_i 11]], [[Data_i 20], [Data_i 21]]]),
      Particle_mapping_block
        \<lparr>num_first_particle = 2, mapping_n_particles = 2, real_particle_numbers = [3, 2]\<rparr>,
      Particle_data_block (positions 2 [[[Data_i 12], [Data_i 13]], [[Data_i 22], [Data_i 23]]]),
      Other_block 10000]"

section \<open>Properties of the header\<close>

subsection \<open>Helper facts\<close>

lemma tng_function_status_UNIV:
  "(UNIV :: tng_function_status set) = {TNG_SUCCESS, TNG_FAILURE, TNG_CRITICAL}"
  using tng_function_status.exhaust by auto

lemma tng_data_type_UNIV:
  "(UNIV :: tng_data_type set) =
     {TNG_CHAR_DATA, TNG_INT_DATA, TNG_FLOAT_DATA, TNG_DOUBLE_DATA}"
  using tng_data_type.exhaust by auto




subsection \<open>The three outcomes\<close>

text \<open>
  Claim C4. Every public operation returns exactly one of three outcome kinds:
  \<open>TNG_SUCCESS\<close> is 0, \<open>TNG_FAILURE\<close> is 1 and \<open>TNG_CRITICAL\<close> is 2, the type
  \<open>tng_function_status\<close> has no other value, and each of the 57 functions that the
  header declares returns a \<open>tng_function_status\<close>.
\<close>

theorem tng_function_status_three_outcomes:
  "enum_value tng_function_status_enum TNG_SUCCESS = 0
   \<and> enum_value tng_function_status_enum TNG_FAILURE = 1
   \<and> enum_value tng_function_status_enum TNG_CRITICAL = 2
   \<and> (UNIV :: tng_function_status set) = {TNG_SUCCESS, TNG_FAILURE, TNG_CRITICAL}
   \<and> (\<forall>s. enum_value tng_function_status_enum s \<in> {0, 1, 2})
   \<and> inj (enum_value tng_function_status_enum)
   \<and> length tng_io_h = 57
   \<and> (\<forall>d \<in> set tng_io_h. c_return d = C_typedef ''tng_function_status'')"
proof -
  have vals:
    "enum_value tng_function_status_enum TNG_SUCCESS = 0"
    "enum_value tng_function_status_enum TNG_FAILURE = 1"
    "enum_value tng_function_status_enum TNG_CRITICAL = 2"
    by (simp_all add: enum_value_def tng_function_status_enum_def)
  have all: "enum_value tng_function_status_enum s \<in> {0, 1, 2}" for s
    by (cases s) (simp_all add: vals)
  have "inj (enum_value tng_function_status_enum)"
  proof (rule injI)
    fix a b :: tng_function_status
    assume "enum_value tng_function_status_enum a = enum_value tng_function_status_enum b"
    then show "a = b"
      by (cases a; cases b) (simp_all add: vals)
  qed
  moreover have "length tng_io_h = 57"
    by (simp add: tng_io_h_def)
  moreover have "\<forall>d \<in> set tng_io_h. c_return d = C_typedef ''tng_function_status''"
    by (simp add: tng_io_h_def)
  ultimately show ?thesis
    using vals all tng_function_status_UNIV by blast
qed

theorem tng_function_status_three_outcomes_witness:
  "c_function_of ''tng_trajectory_init'' =
     Some \<lparr>c_name = ''tng_trajectory_init'', c_return = C_typedef ''tng_function_status'',
           c_params = [(C_ptr (C_typedef ''tng_trajectory_t''), ''tng_data_p'')]\<rparr>
   \<and> c_return (the (c_function_of ''tng_trajectory_init'')) = C_typedef ''tng_function_status''"
proof -
  have f: "c_function_of ''tng_trajectory_init'' =
     Some \<lparr>c_name = ''tng_trajectory_init'', c_return = C_typedef ''tng_function_status'',
           c_params = [(C_ptr (C_typedef ''tng_trajectory_t''), ''tng_data_p'')]\<rparr>"
    by (simp add: c_function_of_def tng_io_h_def)
  have "the (c_function_of ''tng_trajectory_init'') \<in> set tng_io_h"
    unfolding f by (simp add: tng_io_h_def)
  with tng_function_status_three_outcomes
  have "c_return (the (c_function_of ''tng_trajectory_init'')) = C_typedef ''tng_function_status''"
    by blast
  with f show ?thesis by blast
qed

subsection \<open>Reserved block ids\<close>



subsection \<open>The datatype tag\<close>

text \<open>
  Claim C6. The datatype tag has exactly four values: 0 for character data, 1 for
  (32-bit) integers, 2 for (32-bit) floats and 3 for (64-bit) doubles. It fits the one
  byte (\<^verbatim>\<open>const char datatype\<close>) in which \<^verbatim>\<open>tng_data_block_add\<close> and
  \<^verbatim>\<open>tng_particle_data_block_add\<close> accept it, and the getters hand the tag back
  through a \<^verbatim>\<open>tng_data_type *type\<close> beside the array of \<^verbatim>\<open>union data_values\<close>.
\<close>

theorem tng_data_type_tag:
  "enum_value tng_data_type_enum (tng_data_type_of (Data_c s)) = 0
   \<and> enum_value tng_data_type_enum (tng_data_type_of (Data_i (i :: 32 word))) = 1
   \<and> enum_value tng_data_type_enum (tng_data_type_of (Data_f (f :: 32 word))) = 2
   \<and> enum_value tng_data_type_enum (tng_data_type_of (Data_d (d :: 64 word))) = 3
   \<and> (UNIV :: tng_data_type set)
        = {TNG_CHAR_DATA, TNG_INT_DATA, TNG_FLOAT_DATA, TNG_DOUBLE_DATA}
   \<and> card (UNIV :: tng_data_type set) = 4
   \<and> sint (datatype_as_char t) = enum_value tng_data_type_enum t
   \<and> enum_of_value tng_data_type_enum (sint (datatype_as_char t)) = Some t
   \<and> c_param_type ''tng_data_block_add'' ''datatype'' = Some (C_const C_char)
   \<and> c_param_type ''tng_particle_data_block_add'' ''datatype'' = Some (C_const C_char)
   \<and> c_param_type ''tng_data_get'' ''type'' = Some (C_ptr (C_typedef ''tng_data_type''))
   \<and> c_param_type ''tng_data_get'' ''values''
        = Some (C_ptr (C_ptr (C_ptr (C_union ''data_values''))))
   \<and> c_param_type ''tng_particle_data_get'' ''type''
        = Some (C_ptr (C_typedef ''tng_data_type''))
   \<and> c_param_type ''tng_particle_data_get'' ''values''
        = Some (C_ptr (C_ptr (C_ptr (C_ptr (C_union ''data_values'')))))"
proof -
  have vals:
    "enum_value tng_data_type_enum TNG_CHAR_DATA = 0"
    "enum_value tng_data_type_enum TNG_INT_DATA = 1"
    "enum_value tng_data_type_enum TNG_FLOAT_DATA = 2"
    "enum_value tng_data_type_enum TNG_DOUBLE_DATA = 3"
    by (simp_all add: enum_value_def tng_data_type_enum_def)
  have byte: "sint (datatype_as_char t) = enum_value tng_data_type_enum t"
    by (cases t) (simp_all add: datatype_as_char_def vals)
  have tags:
    "enum_of_value tng_data_type_enum 0 = Some TNG_CHAR_DATA"
    "enum_of_value tng_data_type_enum 1 = Some TNG_INT_DATA"
    "enum_of_value tng_data_type_enum 2 = Some TNG_FLOAT_DATA"
    "enum_of_value tng_data_type_enum 3 = Some TNG_DOUBLE_DATA"
    by (simp_all add: enum_of_value_def tng_data_type_enum_def)
  have again: "enum_of_value tng_data_type_enum (sint (datatype_as_char t)) = Some t"
    unfolding byte
    by (cases t) (simp_all add: vals tags)
  have card: "card (UNIV :: tng_data_type set) = 4"
    unfolding tng_data_type_UNIV by simp
  have params:
    "c_param_type ''tng_data_block_add'' ''datatype'' = Some (C_const C_char)"
    "c_param_type ''tng_particle_data_block_add'' ''datatype'' = Some (C_const C_char)"
    "c_param_type ''tng_data_get'' ''type'' = Some (C_ptr (C_typedef ''tng_data_type''))"
    "c_param_type ''tng_data_get'' ''values''
        = Some (C_ptr (C_ptr (C_ptr (C_union ''data_values''))))"
    "c_param_type ''tng_particle_data_get'' ''type''
        = Some (C_ptr (C_typedef ''tng_data_type''))"
    "c_param_type ''tng_particle_data_get'' ''values''
        = Some (C_ptr (C_ptr (C_ptr (C_ptr (C_union ''data_values'')))))"
    by (simp_all add: c_param_type_def c_function_of_def tng_io_h_def)
  show ?thesis
    using vals byte again card params tng_data_type_UNIV by simp
qed

subsection \<open>Codec ids\<close>

text \<open>
  Claim C10. The codec ids 0, 1 and 2 are taken by the engine: 0 is uncompressed, 1 the
  XTC compression and 2 the TNG compression. An id stands for one of the engine's own
  codecs exactly when it is 0, 1 or 2, so a custom codec id has to avoid these three.
\<close>

theorem tng_compression_reserved_codec_ids:
  "enum_value tng_compression_enum TNG_UNCOMPRESSED = 0
   \<and> enum_value tng_compression_enum TNG_XTC_COMPRESSION = 1
   \<and> enum_value tng_compression_enum TNG_TNG_COMPRESSION = 2
   \<and> enum_of_value tng_compression_enum 0 = Some TNG_UNCOMPRESSED
   \<and> enum_of_value tng_compression_enum 1 = Some TNG_XTC_COMPRESSION
   \<and> enum_of_value tng_compression_enum 2 = Some TNG_TNG_COMPRESSION
   \<and> (\<forall>k. (enum_of_value tng_compression_enum k = None) = (k \<notin> {0, 1, 2}))
   \<and> c_param_type ''tng_data_block_add'' ''codec_id'' = Some C_int64_t
   \<and> c_param_type ''tng_particle_data_block_add'' ''codec_id'' = Some C_int64_t"
proof -
  have "(enum_of_value tng_compression_enum k = None) = (k \<notin> {0, 1, 2})" for k
    by (simp add: enum_of_value_def tng_compression_enum_def)
  moreover have
    "c_param_type ''tng_data_block_add'' ''codec_id'' = Some C_int64_t"
    "c_param_type ''tng_particle_data_block_add'' ''codec_id'' = Some C_int64_t"
    by (simp_all add: c_param_type_def c_function_of_def tng_io_h_def)
  ultimately show ?thesis
    by (simp add: enum_value_def enum_of_value_def tng_compression_enum_def)
qed

section \<open>Properties of the modelled engine\<close>

subsection \<open>The particle count\<close>

lemma water_box_counts: "topology_n_particles (water_box flag) = 3000"
  by (simp add: water_box_def water_def topology_n_particles_def molecule_n_atoms_def
      chain_n_atoms_def)

text \<open>
  Claim C8. \<open>tng_num_particles_get\<close> returns the particle count of the current frame
  set when variable particle numbers are in use, and that count may differ from the
  topological total; when the particle count is constant it returns the topological
  total, the sum over the molecule templates of instance count times atoms per instance.
\<close>

theorem tng_num_particles_get_current_count:
  "(var_num_atoms_flag tng_data = TNG_VARIABLE_N_ATOMS \<longrightarrow>
      tng_num_particles_get tng_data =
        (TNG_SUCCESS, frame_set_n_particles (current_trajectory_frame_set tng_data)))
   \<and> (var_num_atoms_flag tng_data = TNG_CONSTANT_N_ATOMS \<longrightarrow>
      tng_num_particles_get tng_data =
        (TNG_SUCCESS, \<Sum>m \<leftarrow> molecules tng_data. molecule_cnt m * molecule_n_atoms m))
   \<and> (\<exists>t. var_num_atoms_flag t = TNG_VARIABLE_N_ATOMS
          \<and> snd (tng_num_particles_get t) \<noteq> topology_n_particles t)"
proof -
  have "var_num_atoms_flag (water_box TNG_VARIABLE_N_ATOMS) = TNG_VARIABLE_N_ATOMS"
    by (simp add: water_box_def)
  moreover have "snd (tng_num_particles_get (water_box TNG_VARIABLE_N_ATOMS)) = 2997"
    by (simp add: tng_num_particles_get_def water_box_def)
  ultimately have "\<exists>t. var_num_atoms_flag t = TNG_VARIABLE_N_ATOMS
          \<and> snd (tng_num_particles_get t) \<noteq> topology_n_particles t"
    using water_box_counts [of TNG_VARIABLE_N_ATOMS]
    by (intro exI [of _ "water_box TNG_VARIABLE_N_ATOMS"]) simp
  then show ?thesis
    by (simp add: tng_num_particles_get_def topology_n_particles_def)
qed

theorem tng_num_particles_get_current_count_witness:
  "tng_num_particles_get (water_box TNG_VARIABLE_N_ATOMS) = (TNG_SUCCESS, 2997)
   \<and> tng_num_particles_get (water_box TNG_CONSTANT_N_ATOMS) = (TNG_SUCCESS, 3000)"
proof -
  have v: "var_num_atoms_flag (water_box TNG_VARIABLE_N_ATOMS) = TNG_VARIABLE_N_ATOMS"
    and c: "var_num_atoms_flag (water_box TNG_CONSTANT_N_ATOMS) = TNG_CONSTANT_N_ATOMS"
    by (simp_all add: water_box_def)
  have "tng_num_particles_get (water_box TNG_VARIABLE_N_ATOMS) =
      (TNG_SUCCESS,
       frame_set_n_particles (current_trajectory_frame_set (water_box TNG_VARIABLE_N_ATOMS)))"
    using tng_num_particles_get_current_count [of "water_box TNG_VARIABLE_N_ATOMS"] v
    by blast
  moreover have "tng_num_particles_get (water_box TNG_CONSTANT_N_ATOMS) =
      (TNG_SUCCESS,
       \<Sum>m \<leftarrow> molecules (water_box TNG_CONSTANT_N_ATOMS). molecule_cnt m * molecule_n_atoms m)"
    using tng_num_particles_get_current_count [of "water_box TNG_CONSTANT_N_ATOMS"] c
    by blast
  ultimately show ?thesis
    using water_box_counts [of TNG_CONSTANT_N_ATOMS]
    by (simp add: topology_n_particles_def) (simp add: water_box_def)
qed

subsection \<open>Digest verification\<close>

lemma most_severe_SUCCESS [simp]:
  "(most_severe a b = TNG_SUCCESS) = (a = TNG_SUCCESS \<and> b = TNG_SUCCESS)"
  by (cases a; cases b) simp_all

lemma most_severe_CRITICAL [simp]:
  "(most_severe a b = TNG_CRITICAL) = (a = TNG_CRITICAL \<or> b = TNG_CRITICAL)"
  by (cases a; cases b) simp_all

lemma most_severe_neutral [simp]:
  "most_severe TNG_SUCCESS b = b" "most_severe a TNG_SUCCESS = a"
  by (cases b; simp) (cases a; simp)

lemma most_severe_assoc:
  "most_severe (most_severe a b) c = most_severe a (most_severe b c)"
  by (cases a; cases b; cases c) simp_all

lemma most_severe_commute: "most_severe a b = most_severe b a"
  by (cases a; cases b) simp_all

lemma most_severe_idem [simp]: "most_severe a a = a"
  by (cases a) simp_all

lemma verified_simps [simp]:
  "verified H [] = TNG_SUCCESS"
  "verified H bs \<noteq> TNG_CRITICAL"
  by (simp_all add: verified_def)

lemma verified_Cons:
  "verified H (b # bs) = most_severe (verified H [b]) (verified H bs)"
  by (simp add: verified_def)

lemma block_read_lockstep:
  "tng_block_read_next H dec file pos TNG_USE_HASH =
     (case tng_block_read_next H dec file pos TNG_SKIP_HASH of
        (st, Some b, p) \<Rightarrow> (most_severe st (verified H [b]), Some b, p)
      | (st, None, p) \<Rightarrow> (st, None, p))"
  unfolding tng_block_read_next_def then_read_def verified_def
  by (auto split: prod.splits tng_function_status.splits option.splits if_splits simp: Let_def)

lemma blocks_lockstep:
  "read_frame_set_blocks H dec file pos TNG_USE_HASH =
     (case read_frame_set_blocks H dec file pos TNG_SKIP_HASH of
        (st, bs, p) \<Rightarrow> (most_severe st (verified H bs), bs, p))"
proof (induction "length file - pos" arbitrary: pos rule: less_induct)
  case less
  show ?case
  proof (cases "length file \<le> pos")
    case True
    then show ?thesis
      by (simp add: read_frame_set_blocks.simps)
  next
    case False
    obtain hst ho hp where h: "read_block_header dec file pos = (hst, ho, hp)"
      by (cases "read_block_header dec file pos") auto
    show ?thesis
    proof (cases "hst = TNG_SUCCESS \<and> ho \<noteq> None")
      case no: False
      then show ?thesis
        using False h
        by (subst (1 2) read_frame_set_blocks.simps)
           (auto split: tng_function_status.splits option.splits)
    next
      case True
      then obtain header where ho: "hst = TNG_SUCCESS" "ho = Some header" by auto
      show ?thesis
      proof (cases "is_frame_set_block header")
        case True
        with False h ho show ?thesis
          by (subst (1 2) read_frame_set_blocks.simps) simp
      next
        case nfs: False
        obtain st ob p where r: "tng_block_read_next H dec file pos TNG_SKIP_HASH = (st, ob, p)"
          by (cases "tng_block_read_next H dec file pos TNG_SKIP_HASH") auto
        show ?thesis
        proof (cases ob)
          case None
          with r have "tng_block_read_next H dec file pos TNG_USE_HASH = (st, None, p)"
            by (simp add: block_read_lockstep)
          with None r False h ho nfs show ?thesis
            by (subst (1 2) read_frame_set_blocks.simps) (simp add: most_severe_assoc)
        next
          case (Some b)
          with r have use: "tng_block_read_next H dec file pos TNG_USE_HASH
              = (most_severe st (verified H [b]), Some b, p)"
            by (simp add: block_read_lockstep)
          show ?thesis
          proof (cases "pos < p")
            case adv: True
            obtain st' bs' q where rest:
              "read_frame_set_blocks H dec file p TNG_SKIP_HASH = (st', bs', q)"
              by (cases "read_frame_set_blocks H dec file p TNG_SKIP_HASH") auto
            have ih: "read_frame_set_blocks H dec file p TNG_USE_HASH =
                (most_severe st' (verified H bs'), bs', q)"
              using less [of p] rest adv False by simp
            have "most_severe (most_severe st (verified H [b])) (most_severe st' (verified H bs'))
                = most_severe (most_severe st st') (most_severe (verified H [b]) (verified H bs'))"
              by (cases st; cases st'; cases "verified H [b]"; cases "verified H bs'") simp_all
            then show ?thesis
              using Some r use False h ho nfs adv rest ih
              by (subst (1 2) read_frame_set_blocks.simps) (simp add: verified_Cons [of H b bs'])
          next
            case False
            with Some r use \<open>\<not> length file \<le> pos\<close> h ho nfs show ?thesis
              by (subst (1 2) read_frame_set_blocks.simps) simp
          qed
        qed
      qed
    qed
  qed
qed

lemma frame_set_lockstep:
  "tng_frame_set_read_next H dec file pos TNG_USE_HASH =
     (case tng_frame_set_read_next H dec file pos TNG_SKIP_HASH of
        (st, Some (b, bs), p) \<Rightarrow> (most_severe st (verified H (b # bs)), Some (b, bs), p)
      | (st, None, p) \<Rightarrow> (st, None, p))"
proof -
  obtain st ob p where r: "tng_block_read_next H dec file pos TNG_SKIP_HASH = (st, ob, p)"
    by (cases "tng_block_read_next H dec file pos TNG_SKIP_HASH") auto
  show ?thesis
  proof (cases ob)
    case None
    with r show ?thesis
      by (simp add: tng_frame_set_read_next_def block_read_lockstep)
  next
    case (Some b)
    obtain st' bs' q where rest:
      "read_frame_set_blocks H dec file p TNG_SKIP_HASH = (st', bs', q)"
      by (cases "read_frame_set_blocks H dec file p TNG_SKIP_HASH") auto
    have "most_severe (most_severe st (verified H [b])) (most_severe st' (verified H bs'))
        = most_severe (most_severe st st') (most_severe (verified H [b]) (verified H bs'))"
      by (cases st; cases st'; cases "verified H [b]"; cases "verified H bs'") simp_all
    with Some r rest show ?thesis
      by (simp add: tng_frame_set_read_next_def block_read_lockstep blocks_lockstep
          verified_Cons [of H b bs'])
  qed
qed

text \<open>
  Claim C1. A block that is read in integrity mode \<open>use\<close> and whose recomputed content
  digest differs from its non-zero stored digest gives a minor failure, with the block
  and its data returned and the cursor where a read without verification leaves it; so
  does a frame set with such a block, whose other blocks are read all the same. For
  every file, verification changes neither the data returned nor the cursor, and the
  outcome is critical with verification exactly when it is critical without.
\<close>

theorem digest_mismatch_is_minor:
  "(tng_block_read_next H dec file pos TNG_SKIP_HASH = (TNG_SUCCESS, Some b, pos')
      \<and> block_hash b \<noteq> replicate TNG_HASH_LEN 0 \<and> H (block_contents b) \<noteq> block_hash b
     \<longrightarrow> tng_block_read_next H dec file pos TNG_USE_HASH = (TNG_FAILURE, Some b, pos'))
   \<and> (tng_frame_set_read_next H dec file pos TNG_SKIP_HASH = (TNG_SUCCESS, Some (fsb, bs), q)
      \<and> (\<exists>b \<in> set (fsb # bs).
            block_hash b \<noteq> replicate TNG_HASH_LEN 0 \<and> H (block_contents b) \<noteq> block_hash b)
     \<longrightarrow> tng_frame_set_read_next H dec file pos TNG_USE_HASH
          = (TNG_FAILURE, Some (fsb, bs), q))
   \<and> snd (tng_block_read_next H dec file pos TNG_USE_HASH)
       = snd (tng_block_read_next H dec file pos TNG_SKIP_HASH)
   \<and> snd (tng_frame_set_read_next H dec file pos TNG_USE_HASH)
       = snd (tng_frame_set_read_next H dec file pos TNG_SKIP_HASH)
   \<and> (fst (tng_block_read_next H dec file pos TNG_USE_HASH) = TNG_CRITICAL)
       = (fst (tng_block_read_next H dec file pos TNG_SKIP_HASH) = TNG_CRITICAL)
   \<and> (fst (tng_frame_set_read_next H dec file pos TNG_USE_HASH) = TNG_CRITICAL)
       = (fst (tng_frame_set_read_next H dec file pos TNG_SKIP_HASH) = TNG_CRITICAL)"
proof -
  have block: "tng_block_read_next H dec file pos TNG_USE_HASH = (TNG_FAILURE, Some b, pos')"
    if "tng_block_read_next H dec file pos TNG_SKIP_HASH = (TNG_SUCCESS, Some b, pos')"
      "block_hash b \<noteq> replicate TNG_HASH_LEN 0" "H (block_contents b) \<noteq> block_hash b"
    using that by (simp add: block_read_lockstep verified_def hash_match_verify_def)
  have frame_set: "tng_frame_set_read_next H dec file pos TNG_USE_HASH
      = (TNG_FAILURE, Some (fsb, bs), q)"
    if "tng_frame_set_read_next H dec file pos TNG_SKIP_HASH = (TNG_SUCCESS, Some (fsb, bs), q)"
      "\<exists>b \<in> set (fsb # bs).
         block_hash b \<noteq> replicate TNG_HASH_LEN 0 \<and> H (block_contents b) \<noteq> block_hash b"
  proof -
    from that(2) have "\<not> list_all (hash_match_verify H) (fsb # bs)"
      unfolding list_all_iff hash_match_verify_def by blast
    then have "verified H (fsb # bs) = TNG_FAILURE"
      by (simp add: verified_def)
    with that(1) show ?thesis
      by (simp add: frame_set_lockstep)
  qed
  have same_block: "snd (tng_block_read_next H dec file pos TNG_USE_HASH)
      = snd (tng_block_read_next H dec file pos TNG_SKIP_HASH)"
    by (simp add: block_read_lockstep split: prod.splits option.splits)
  have same_frame_set: "snd (tng_frame_set_read_next H dec file pos TNG_USE_HASH)
      = snd (tng_frame_set_read_next H dec file pos TNG_SKIP_HASH)"
    by (simp add: frame_set_lockstep split: prod.splits option.splits)
  have critical_block: "(fst (tng_block_read_next H dec file pos TNG_USE_HASH) = TNG_CRITICAL)
      = (fst (tng_block_read_next H dec file pos TNG_SKIP_HASH) = TNG_CRITICAL)"
    by (simp add: block_read_lockstep split: prod.splits option.splits)
  have critical_frame_set:
    "(fst (tng_frame_set_read_next H dec file pos TNG_USE_HASH) = TNG_CRITICAL)
      = (fst (tng_frame_set_read_next H dec file pos TNG_SKIP_HASH) = TNG_CRITICAL)"
    by (simp add: frame_set_lockstep split: prod.splits option.splits)
  from block frame_set same_block same_frame_set critical_block critical_frame_set
  show ?thesis by blast
qed

theorem digest_mismatch_is_minor_witness:
  "tng_block_read_next example_digest big_endian_64 example_file 56 TNG_USE_HASH
     = (TNG_FAILURE, Some (example_read_block 10001 (example_digest [1, 2, 3, 5])), 112)
   \<and> block_contents (example_read_block 10001 (example_digest [1, 2, 3, 5])) = [1, 2, 3, 4]
   \<and> tng_block_read_next example_digest big_endian_64 example_file 112 TNG_USE_HASH
     = (TNG_SUCCESS, Some (example_read_block 6 (replicate 16 0)), 168)
   \<and> tng_frame_set_read_next example_digest big_endian_64 example_file 0 TNG_USE_HASH
     = (TNG_FAILURE,
        Some (example_read_block 4 (example_digest [1, 2, 3, 4]),
              [example_read_block 10001 (example_digest [1, 2, 3, 5]),
               example_read_block 6 (replicate 16 0)]),
        168)"
proof -
  let ?b = "example_read_block 10001 (example_digest [1, 2, 3, 5])"
  have skip: "tng_block_read_next example_digest big_endian_64 example_file 56 TNG_SKIP_HASH
      = (TNG_SUCCESS, Some ?b, 112)"
    by code_simp
  have stored: "block_hash ?b \<noteq> replicate TNG_HASH_LEN 0"
    by code_simp
  have differs: "example_digest (block_contents ?b) \<noteq> block_hash ?b"
    by code_simp
  have frame_set_skip:
    "tng_frame_set_read_next example_digest big_endian_64 example_file 0 TNG_SKIP_HASH
      = (TNG_SUCCESS,
         Some (example_read_block 4 (example_digest [1, 2, 3, 4]),
               [?b, example_read_block 6 (replicate 16 0)]),
         168)"
    by code_simp
  have some: "\<exists>b \<in> set (example_read_block 4 (example_digest [1, 2, 3, 4])
        # [?b, example_read_block 6 (replicate 16 0)]).
      block_hash b \<noteq> replicate TNG_HASH_LEN 0
      \<and> example_digest (block_contents b) \<noteq> block_hash b"
    using stored differs by simp
  have "tng_block_read_next example_digest big_endian_64 example_file 56 TNG_USE_HASH
      = (TNG_FAILURE, Some ?b, 112)"
    using digest_mismatch_is_minor [of example_digest big_endian_64 example_file 56 ?b 112]
      skip stored differs by blast
  moreover have "block_contents ?b = [1, 2, 3, 4]"
    by (simp add: example_read_block_def)
  moreover have
    "tng_block_read_next example_digest big_endian_64 example_file 112 TNG_USE_HASH
      = (TNG_SUCCESS, Some (example_read_block 6 (replicate 16 0)), 168)"
    by code_simp
  moreover have
    "tng_frame_set_read_next example_digest big_endian_64 example_file 0 TNG_USE_HASH
      = (TNG_FAILURE,
         Some (example_read_block 4 (example_digest [1, 2, 3, 4]),
               [?b, example_read_block 6 (replicate 16 0)]),
         168)"
    using digest_mismatch_is_minor [of example_digest big_endian_64 example_file 0 _ _
        "example_read_block 4 (example_digest [1, 2, 3, 4])"
        "[?b, example_read_block 6 (replicate 16 0)]" 168]
      frame_set_skip some by blast
  ultimately show ?thesis by blast
qed

subsection \<open>Real particle numbers\<close>

lemma fold_upd_map_of:
  "fold (\<lambda>(k, v) a. a(k \<mapsto> v)) zs a = a ++ map_of (rev zs)"
proof (induction zs arbitrary: a)
  case Nil
  show ?case by simp
next
  case (Cons z zs)
  obtain k v where z: "z = (k, v)" by (cases z)
  have "fold (\<lambda>(k, v) a. a(k \<mapsto> v)) (z # zs) a
      = fold (\<lambda>(k, v) a. a(k \<mapsto> v)) zs (a(k \<mapsto> v))"
    by (simp add: z)
  also have "\<dots> = (a(k \<mapsto> v)) ++ map_of (rev zs)"
    by (rule Cons.IH)
  also have "\<dots> = a ++ map_of (rev (z # zs))"
    by (rule ext) (simp add: z map_add_def split: option.splits)
  finally show ?case .
qed

lemma place_particles_map_of:
  "place_particles m rows a = a ++ map_of (rev (zip (real_particle_numbers m) rows))"
  by (simp add: place_particles_def fold_upd_map_of)

lemma frame_particles_fold:
  "fold (\<lambda>(mo, d) a. case mo of None \<Rightarrow> a | Some m \<Rightarrow> place_particles m (block_values d ! f) a)
     pairs a = a ++ map_of (rev (placed_rows pairs f))"
proof (induction pairs arbitrary: a)
  case Nil
  show ?case by (simp add: placed_rows_def)
next
  case (Cons p pairs)
  obtain mo d where p: "p = (mo, d)" by (cases p)
  show ?case
  proof (cases mo)
    case None
    with p Cons.IH [of a] show ?thesis
      by (simp add: placed_rows_def)
  next
    case (Some m)
    with p Cons.IH [of "place_particles m (block_values d ! f) a"] show ?thesis
      by (simp add: placed_rows_def place_particles_map_of)
  qed
qed

lemma frame_particles_map_of:
  "frame_particles pairs f = map_of (rev (placed_rows pairs f))"
  by (simp add: frame_particles_def frame_particles_fold)

lemma map_of_rev_distinct:
  "distinct (map fst zs) \<Longrightarrow> map_of (rev zs) = map_of zs"
  by (rule ext) (metis distinct_rev map_of_eq_Some_iff not_None_eq option.exhaust rev_map set_rev map_of_eq_None_iff)


lemma particle_data_ok_row_count:
  assumes "particle_data_ok (Some m, d)" and "f < length (block_values d)"
  shows "length (block_values d ! f) = length (real_particle_numbers m)"
proof -
  from assms(1) have
    frames: "list_all (\<lambda>frame. int (length frame) = data_n_particles d) (block_values d)"
    and counts: "int (length (real_particle_numbers m)) = data_n_particles d"
    by (auto simp add: particle_data_ok_def list_all_iff)
  from frames assms(2) have "int (length (block_values d ! f)) = data_n_particles d"
    by (simp add: list_all_length)
  with counts show ?thesis by simp
qed

lemma placed_rows_keys:
  assumes "list_all particle_data_ok pairs"
    and "list_all (\<lambda>(mo, d). f < length (block_values d)) pairs"
  shows "map fst (placed_rows pairs f) =
     concat (map (\<lambda>(mo, d). case mo of None \<Rightarrow> [] | Some m \<Rightarrow> real_particle_numbers m) pairs)"
  using assms
proof (induction pairs)
  case Nil
  show ?case by (simp add: placed_rows_def)
next
  case (Cons p pairs)
  obtain mo d where p: "p = (mo, d)" by (cases p)
  from Cons.prems p obtain m where m: "mo = Some m"
    by (cases mo) (simp_all add: particle_data_ok_def)
  from Cons.prems p m have "length (block_values d ! f) = length (real_particle_numbers m)"
    by (intro particle_data_ok_row_count) simp_all
  moreover from Cons have "map fst (placed_rows pairs f) =
     concat (map (\<lambda>(mo, d). case mo of None \<Rightarrow> [] | Some m \<Rightarrow> real_particle_numbers m) pairs)"
    by simp
  ultimately show ?case
    using p m by (simp add: placed_rows_def)
qed

lemma placed_rows_member:
  assumes "(Some m, d) \<in> set pairs"
    and "i < length (real_particle_numbers m)"
    and "length (block_values d ! f) = length (real_particle_numbers m)"
  shows "(real_particle_numbers m ! i, block_values d ! f ! i) \<in> set (placed_rows pairs f)"
proof -
  have "(real_particle_numbers m ! i, block_values d ! f ! i)
      \<in> set (zip (real_particle_numbers m) (block_values d ! f))"
    using assms(2,3) by (auto simp add: set_zip)
  with assms(1) show ?thesis
    by (force simp add: placed_rows_def)
qed

lemma mapped_particle_data_nearest:
  assumes "k < length blocks" and "blocks ! k = Particle_data_block d"
    and "data_block_id d = ident"
  shows "(fold (\<lambda>b current. case b of Particle_mapping_block m \<Rightarrow> Some m | _ \<Rightarrow> current)
            (take k blocks) current, d)
         \<in> set (mapped_particle_data ident current blocks)"
  using assms
proof (induction blocks arbitrary: current k)
  case Nil
  then show ?case by simp
next
  case (Cons b blocks)
  show ?case
  proof (cases k)
    case 0
    with Cons.prems show ?thesis by simp
  next
    case (Suc j)
    with Cons.prems have j: "j < length blocks" "blocks ! j = Particle_data_block d"
      by simp_all
    show ?thesis
      using Cons.IH [OF j Cons.prems(3)] Suc
      by (cases b) simp_all
  qed
qed


lemma particle_numbers_count:
  assumes "list_all particle_data_ok pairs"
  shows "(\<Sum>(m, d) \<leftarrow> pairs. data_n_particles d) =
     int (length (concat (map (\<lambda>(mo, d). case mo of None \<Rightarrow> [] | Some m \<Rightarrow> real_particle_numbers m) pairs)))"
  using assms
proof (induction pairs)
  case Nil
  show ?case by simp
next
  case (Cons p pairs)
  obtain mo d where p: "p = (mo, d)" by (cases p)
  from Cons.prems p obtain m where m: "mo = Some m"
    by (cases mo) (simp_all add: particle_data_ok_def)
  from Cons.prems p m have "int (length (real_particle_numbers m)) = data_n_particles d"
    by (simp add: particle_data_ok_def)
  with Cons p m show ?case by simp
qed

lemma tng_particle_data_get_ok:
  assumes "particle_blocks_ok frame_set ident"
  shows "tng_particle_data_get frame_set ident =
    (TNG_SUCCESS,
     Some \<lparr>got_values = map (frame_particles (mapped_particle_data ident None frame_set))
              [0 ..< length (block_values (snd (hd (mapped_particle_data ident None frame_set))))],
           got_n_frames = int (length (block_values (snd (hd (mapped_particle_data ident None frame_set))))),
           got_n_particles = (\<Sum>(m, d) \<leftarrow> mapped_particle_data ident None frame_set. data_n_particles d),
           got_n_values_per_frame = n_values_per_frame (snd (hd (mapped_particle_data ident None frame_set))),
           got_type = block_datatype (snd (hd (mapped_particle_data ident None frame_set)))\<rparr>)"
  using assms
  by (auto simp add: particle_blocks_ok_def tng_particle_data_get_def Let_def split: list.splits)

lemma frame_particles_distinct:
  assumes ok: "list_all particle_data_ok pairs"
    and frames: "list_all (\<lambda>(mo, d). f < length (block_values d)) pairs"
    and dist: "distinct (concat (map (\<lambda>(mo, d). case mo of None \<Rightarrow> [] | Some m \<Rightarrow> real_particle_numbers m) pairs))"
  shows "frame_particles pairs f = map_of (placed_rows pairs f)"
    and "distinct (map fst (placed_rows pairs f))"
proof -
  show d: "distinct (map fst (placed_rows pairs f))"
    using placed_rows_keys [OF ok frames] dist by simp
  show "frame_particles pairs f = map_of (placed_rows pairs f)"
    by (simp add: frame_particles_map_of map_of_rev_distinct [OF d])
qed

text \<open>
  Claim C2. In a frame set whose data blocks of an id are covered by mapping blocks with
  pairwise different global particle numbers, \<open>tng_particle_data_get\<close> succeeds, and the
  array it returns (frames, particles, values per frame) has its particle axis indexed
  by real particle numbers: the row at a local index of a data block stands at the
  global number that the nearest preceding mapping block gives for that index; the
  indices of the array are exactly the numbers of the mapping blocks, none missing, and
  their number is the returned particle count, none twice.
\<close>

theorem tng_particle_data_get_real_particle_numbers:
  assumes ok: "particle_blocks_ok frame_set ident"
    and disjoint: "distinct (particle_numbers_covered frame_set ident)"
  shows "fst (tng_particle_data_get frame_set ident) = TNG_SUCCESS
    \<and> (\<exists>r. snd (tng_particle_data_get frame_set ident) = Some r
         \<and> length (got_values r) = nat (got_n_frames r)
         \<and> (\<forall>k d.
               k < length frame_set \<and> frame_set ! k = Particle_data_block d
               \<and> data_block_id d = ident
               \<longrightarrow> length (got_values r) = length (block_values d)
                   \<and> got_n_values_per_frame r = n_values_per_frame d
                   \<and> got_type r = block_datatype d)
         \<and> (\<forall>k m d f i.
               k < length frame_set \<and> frame_set ! k = Particle_data_block d
               \<and> data_block_id d = ident \<and> nearest_mapping frame_set k = Some m
               \<and> f < length (got_values r) \<and> i < length (real_particle_numbers m)
               \<longrightarrow> (got_values r ! f) (real_particle_numbers m ! i)
                     = Some (block_values d ! f ! i))
         \<and> (\<forall>f < length (got_values r).
               dom (got_values r ! f) = set (particle_numbers_covered frame_set ident)
               \<and> int (card (dom (got_values r ! f))) = got_n_particles r)
         \<and> got_n_particles r = int (length (particle_numbers_covered frame_set ident)))"
proof -
  define pairs where "pairs = mapped_particle_data ident None frame_set"
  define d0 where "d0 = snd (hd pairs)"
  define r where "r = \<lparr>got_values = map (frame_particles pairs) [0 ..< length (block_values d0)],
           got_n_frames = int (length (block_values d0)),
           got_n_particles = (\<Sum>(m, d) \<leftarrow> pairs. data_n_particles d),
           got_n_values_per_frame = n_values_per_frame d0,
           got_type = block_datatype d0\<rparr>"
  have get: "tng_particle_data_get frame_set ident = (TNG_SUCCESS, Some r)"
    using tng_particle_data_get_ok [OF ok] by (simp add: r_def d0_def pairs_def)
  from ok have pairs_ok: "list_all particle_data_ok pairs"
    and shapes: "list_all (\<lambda>(m, d). same_shape d0 d) pairs"
    and types: "list_all (\<lambda>(m, d). block_datatype d = block_datatype d0) pairs"
    by (auto simp add: particle_blocks_ok_def pairs_def d0_def split: list.splits)
  have covered: "particle_numbers_covered frame_set ident =
      concat (map (\<lambda>(mo, d). case mo of None \<Rightarrow> [] | Some m \<Rightarrow> real_particle_numbers m) pairs)"
    by (simp add: particle_numbers_covered_def pairs_def)
  have len: "length (got_values r) = length (block_values d0)"
    by (simp add: r_def)
  have frames: "list_all (\<lambda>(mo, d). f < length (block_values d)) pairs"
    if "f < length (block_values d0)" for f
    using shapes that by (auto simp add: list_all_iff same_shape_def)
  have at: "got_values r ! f = map_of (placed_rows pairs f)"
    and keys: "distinct (map fst (placed_rows pairs f))"
    and keys_eq: "map fst (placed_rows pairs f) = particle_numbers_covered frame_set ident"
    if "f < length (block_values d0)" for f
  proof -
    have "got_values r ! f = frame_particles pairs f"
      using that by (simp add: r_def)
    then show "got_values r ! f = map_of (placed_rows pairs f)"
      using frame_particles_distinct(1) [OF pairs_ok frames [OF that]] disjoint covered
      by simp
    show "distinct (map fst (placed_rows pairs f))"
      using frame_particles_distinct(2) [OF pairs_ok frames [OF that]] disjoint covered
      by simp
    show "map fst (placed_rows pairs f) = particle_numbers_covered frame_set ident"
      using placed_rows_keys [OF pairs_ok frames [OF that]] covered by simp
  qed
  have count: "got_n_particles r = int (length (particle_numbers_covered frame_set ident))"
    using particle_numbers_count [OF pairs_ok] covered by (simp add: r_def)
  have rows: "(got_values r ! f) (real_particle_numbers m ! i) = Some (block_values d ! f ! i)"
    if "k < length frame_set" "frame_set ! k = Particle_data_block d"
      "data_block_id d = ident" "nearest_mapping frame_set k = Some m"
      "f < length (got_values r)" "i < length (real_particle_numbers m)"
    for k m d f i
  proof -
    have mem: "(Some m, d) \<in> set pairs"
      using mapped_particle_data_nearest [OF that(1) that(2) that(3), of None] that(4)
      by (simp add: nearest_mapping_def pairs_def)
    have f: "f < length (block_values d0)"
      using that(5) len by simp
    from mem pairs_ok have okd: "particle_data_ok (Some m, d)"
      by (auto simp add: list_all_iff)
    from mem frames [OF f] have "f < length (block_values d)"
      by (auto simp add: list_all_iff)
    then have "length (block_values d ! f) = length (real_particle_numbers m)"
      using okd by (rule particle_data_ok_row_count [rotated])
    then have "(real_particle_numbers m ! i, block_values d ! f ! i) \<in> set (placed_rows pairs f)"
      using mem that(6) by (intro placed_rows_member)
    then show ?thesis
      using at [OF f] keys [OF f] by simp
  qed
  have doms: "dom (got_values r ! f) = set (particle_numbers_covered frame_set ident)
      \<and> int (card (dom (got_values r ! f))) = got_n_particles r"
    if "f < length (got_values r)" for f
  proof -
    have f: "f < length (block_values d0)"
      using that len by simp
    have "dom (got_values r ! f) = set (map fst (placed_rows pairs f))"
      using at [OF f] by (simp add: dom_map_of_conv_image_fst)
    then have d: "dom (got_values r ! f) = set (particle_numbers_covered frame_set ident)"
      using keys_eq [OF f] by simp
    moreover have "card (set (particle_numbers_covered frame_set ident))
        = length (particle_numbers_covered frame_set ident)"
      using disjoint by (rule distinct_card)
    ultimately show ?thesis
      using count by simp
  qed
  have frames_count: "length (got_values r) = nat (got_n_frames r)"
    by (simp add: r_def)
  have all_shapes: "\<forall>k d.
      k < length frame_set \<and> frame_set ! k = Particle_data_block d \<and> data_block_id d = ident
      \<longrightarrow> length (got_values r) = length (block_values d)
          \<and> got_n_values_per_frame r = n_values_per_frame d
          \<and> got_type r = block_datatype d"
  proof (intro allI impI)
    fix k d
    assume kd: "k < length frame_set \<and> frame_set ! k = Particle_data_block d
      \<and> data_block_id d = ident"
    then obtain mo where "(mo, d) \<in> set pairs"
      using mapped_particle_data_nearest [of k frame_set d ident None]
      by (auto simp add: pairs_def)
    with shapes types have "same_shape d0 d" "block_datatype d = block_datatype d0"
      by (auto simp add: list_all_iff)
    then show "length (got_values r) = length (block_values d)
          \<and> got_n_values_per_frame r = n_values_per_frame d
          \<and> got_type r = block_datatype d"
      by (simp add: r_def same_shape_def)
  qed
  have all_rows: "\<forall>k m d f i.
      k < length frame_set \<and> frame_set ! k = Particle_data_block d
      \<and> data_block_id d = ident \<and> nearest_mapping frame_set k = Some m
      \<and> f < length (got_values r) \<and> i < length (real_particle_numbers m)
      \<longrightarrow> (got_values r ! f) (real_particle_numbers m ! i) = Some (block_values d ! f ! i)"
    using rows by blast
  have all_doms: "\<forall>f < length (got_values r).
      dom (got_values r ! f) = set (particle_numbers_covered frame_set ident)
      \<and> int (card (dom (got_values r ! f))) = got_n_particles r"
    using doms by blast
  from get have "fst (tng_particle_data_get frame_set ident) = TNG_SUCCESS"
    and "snd (tng_particle_data_get frame_set ident) = Some r"
    by simp_all
  with frames_count all_shapes all_rows all_doms count show ?thesis
    by blast
qed


theorem tng_particle_data_get_real_particle_numbers_witness:
  "particle_blocks_ok two_partitions 10001
   \<and> particle_numbers_covered two_partitions 10001 = [1, 0, 3, 2]
   \<and> fst (tng_particle_data_get two_partitions 10001) = TNG_SUCCESS
   \<and> (\<exists>r. snd (tng_particle_data_get two_partitions 10001) = Some r
        \<and> length (got_values r) = 2
        \<and> (got_values r ! 0) 3 = Some [Data_i 12]
        \<and> (got_values r ! 1) 2 = Some [Data_i 23]
        \<and> dom (got_values r ! 0) = {0, 1, 2, 3}
        \<and> got_n_particles r = 4)"
proof -
  let ?B = "\<lparr>num_first_particle = 2, mapping_n_particles = 2, real_particle_numbers = [3, 2]\<rparr>"
  let ?d = "positions 2 [[[Data_i 12], [Data_i 13]], [[Data_i 22], [Data_i 23]]]"
  have ok: "particle_blocks_ok two_partitions 10001"
    by (simp add: particle_blocks_ok_def two_partitions_def positions_def particle_data_ok_def
        same_shape_def stored_frames_def)
  have covered: "particle_numbers_covered two_partitions 10001 = [1, 0, 3, 2]"
    by (simp add: particle_numbers_covered_def two_partitions_def positions_def)
  then have disjoint: "distinct (particle_numbers_covered two_partitions 10001)"
    by simp
  have at4: "4 < length two_partitions" "two_partitions ! 4 = Particle_data_block ?d"
    "data_block_id ?d = 10001" "nearest_mapping two_partitions 4 = Some ?B"
    by (simp_all add: two_partitions_def positions_def nearest_mapping_def)
  from tng_particle_data_get_real_particle_numbers [OF ok disjoint]
  obtain r where r: "snd (tng_particle_data_get two_partitions 10001) = Some r"
    and st: "fst (tng_particle_data_get two_partitions 10001) = TNG_SUCCESS"
    and all_shapes: "\<forall>k d. k < length two_partitions
        \<and> two_partitions ! k = Particle_data_block d \<and> data_block_id d = 10001
        \<longrightarrow> length (got_values r) = length (block_values d)
            \<and> got_n_values_per_frame r = n_values_per_frame d
            \<and> got_type r = block_datatype d"
    and all_rows: "\<forall>k m d f i. k < length two_partitions
        \<and> two_partitions ! k = Particle_data_block d \<and> data_block_id d = 10001
        \<and> nearest_mapping two_partitions k = Some m
        \<and> f < length (got_values r) \<and> i < length (real_particle_numbers m)
        \<longrightarrow> (got_values r ! f) (real_particle_numbers m ! i) = Some (block_values d ! f ! i)"
    and all_doms: "\<forall>f < length (got_values r).
        dom (got_values r ! f) = set (particle_numbers_covered two_partitions 10001)
        \<and> int (card (dom (got_values r ! f))) = got_n_particles r"
    and count: "got_n_particles r = int (length (particle_numbers_covered two_partitions 10001))"
    by (elim conjE exE)
  have shape: "length (got_values r) = length (block_values d)"
    if "k < length two_partitions" "two_partitions ! k = Particle_data_block d"
      "data_block_id d = 10001" for k d
    using all_shapes that by blast
  have rows: "(got_values r ! f) (real_particle_numbers m ! i) = Some (block_values d ! f ! i)"
    if "k < length two_partitions" "two_partitions ! k = Particle_data_block d"
      "data_block_id d = 10001" "nearest_mapping two_partitions k = Some m"
      "f < length (got_values r)" "i < length (real_particle_numbers m)" for k m d f i
    using all_rows that by blast
  have doms: "dom (got_values r ! f) = set (particle_numbers_covered two_partitions 10001)"
    if "f < length (got_values r)" for f
    using all_doms that by blast
  have len: "length (got_values r) = 2"
    using shape [OF at4(1) at4(2) at4(3)] by (simp add: positions_def)
  have "(got_values r ! 0) (real_particle_numbers ?B ! 0) = Some (block_values ?d ! 0 ! 0)"
    using rows [OF at4, of 0 0] len by simp
  then have v1: "(got_values r ! 0) 3 = Some [Data_i 12]"
    by (simp add: positions_def)
  have "(got_values r ! 1) (real_particle_numbers ?B ! 1) = Some (block_values ?d ! 1 ! 1)"
    using rows [OF at4, of 1 1] len by simp
  then have v2: "(got_values r ! 1) 2 = Some [Data_i 23]"
    by (simp add: positions_def)
  have d: "dom (got_values r ! 0) = {0, 1, 2, 3}"
    using doms [of 0] len covered by auto
  have n: "got_n_particles r = 4"
    using count covered by simp
  from ok covered st r len v1 v2 d n show ?thesis
    by blast
qed


end
